theory Spec2Isabelle
  imports Complex_Main "HOL-Library.Sublist" "HOL-Library.AList"
begin

section \<open>Python strings\<close>

text \<open>
  A Python \<open>str\<close> is a sequence of Unicode code points; \<open>len\<close>, \<open>split\<close>, \<open>strip\<close>,
  \<open>ord\<close> and \<open>chr\<close> all work on code points. A string is therefore a list of code
  points, each a natural number. \<open>py s\<close> reads an ASCII literal as such a string.
\<close>

type_synonym pystr = "nat list"

definition py :: "string \<Rightarrow> pystr" where
  "py s = map of_char s"

section \<open>Exceptions\<close>

text \<open>
  A raised exception is a value: its class and the text \<open>str(e)\<close> gives. A function
  that can raise returns \<open>exn + 'a\<close>, with \<open>Inl\<close> the exception. \<open>BaseException\<close> stands
  for the exceptions that are not instances of \<open>Exception\<close> (\<open>KeyboardInterrupt\<close>,
  \<open>SystemExit\<close>, \<open>GeneratorExit\<close>): an \<open>except Exception\<close> clause does not catch them.
\<close>

datatype exn =
  KeyError pystr
| ValueError pystr
| ZeroDivisionError pystr
| AttributeError pystr
| OSError pystr
| FileNotFoundError pystr
| BaseException pystr

fun exn_str :: "exn \<Rightarrow> pystr" where
  "exn_str (KeyError s) = s"
| "exn_str (ValueError s) = s"
| "exn_str (ZeroDivisionError s) = s"
| "exn_str (AttributeError s) = s"
| "exn_str (OSError s) = s"
| "exn_str (FileNotFoundError s) = s"
| "exn_str (BaseException s) = s"

text \<open>\<open>isinstance(e, Exception)\<close>: what \<open>except Exception\<close> catches.\<close>

fun is_Exception :: "exn \<Rightarrow> bool" where
  "is_Exception (BaseException s) = False"
| "is_Exception e = True"

section \<open>Integers as text\<close>

text \<open>\<open>str(n)\<close> for an integer: its decimal digits, with a minus sign when negative.\<close>

function digits :: "nat \<Rightarrow> pystr" where
  "digits n = (if n < 10 then [48 + n] else digits (n div 10) @ [48 + n mod 10])"
  by pat_completeness auto
termination
  by (relation "measure (\<lambda>n. n)") auto

declare digits.simps [simp del]

definition str_int :: "int \<Rightarrow> pystr" where
  "str_int i = (if i < 0 then 45 # digits (nat (- i)) else digits (nat i))"

section \<open>excel\_reader.py: column letters\<close>

text \<open>
  \<^verbatim>\<open>
  def get_column_letter(index: int) -> str:
      result = ""
      while index >= 0:
          result = chr(index % 26 + ord('A')) + result
          index = index // 26 - 1
      return result
  \<close>
  Python's \<open>//\<close> and \<open>%\<close> on integers are floor division and its remainder, which are
  \<open>div\<close> and \<open>mod\<close> on \<open>int\<close>. The argument of \<open>chr\<close> lies in 65..90 here, so
  \<open>chr\<close> does not raise.
\<close>

function get_column_letter_loop :: "int \<Rightarrow> pystr \<Rightarrow> pystr" where
  "get_column_letter_loop index result =
     (if index \<ge> 0
      then get_column_letter_loop (index div 26 - 1) (nat (index mod 26 + 65) # result)
      else result)"
  by pat_completeness auto
termination
  by (relation "measure (\<lambda>(index, result). nat (index + 1))") auto

declare get_column_letter_loop.simps [simp del]

definition get_column_letter :: "int \<Rightarrow> pystr" where
  "get_column_letter index = get_column_letter_loop index []"

text \<open>
  \<^verbatim>\<open>
  def get_column_index(letter: str) -> int:
      result = 0
      for char in letter.upper():
          result = result * 26 + (ord(char) - ord('A') + 1)
      return result - 1
  \<close>
  \<open>str.upper\<close> is modelled on the ASCII letters, where it subtracts 32 from a lower-case
  letter; every other code point is left as it is (Python's full Unicode case mapping is
  not modelled: it only differs on non-ASCII input).
\<close>

definition upper_char :: "nat \<Rightarrow> nat" where
  "upper_char c = (if 97 \<le> c \<and> c \<le> 122 then c - 32 else c)"

definition py_upper :: "pystr \<Rightarrow> pystr" where
  "py_upper s = map upper_char s"

fun get_column_index_loop :: "int \<Rightarrow> pystr \<Rightarrow> int" where
  "get_column_index_loop result [] = result"
| "get_column_index_loop result (char # rest) =
     get_column_index_loop (result * 26 + (int char - 65 + 1)) rest"

definition get_column_index :: "pystr \<Rightarrow> int" where
  "get_column_index letter = get_column_index_loop 0 (py_upper letter) - 1"

text \<open>The upper-case ASCII letters A to Z.\<close>

definition is_upper_letter :: "nat \<Rightarrow> bool" where
  "is_upper_letter c \<longleftrightarrow> 65 \<le> c \<and> c \<le> 90"

section \<open>checkpoint.py: CheckpointManager\<close>

text \<open>
  \<open>CheckpointManager.data\<close> is a dictionary. Its keys are those written by
  \<open>create_session\<close>, \<open>mark_processed\<close>, \<open>mark_failed\<close> and \<open>save_progress\<close>; a key
  that is absent is \<open>None\<close> here, so that \<open>data.get(key, default)\<close> and
  \<open>key not in data\<close> are modelled as the code has them. An entry of \<open>failed_files\<close>
  is the dictionary \<open>{"file": ..., "error": ..., "timestamp": ...}\<close>, a record whose
  fields carry the prefix \<open>entry_\<close> (\<open>file\<close> is a reserved word).
\<close>

record failed_entry =
  entry_file :: pystr
  entry_error :: pystr
  entry_timestamp :: pystr

record checkpoint_data =
  session_id :: "pystr option"
  started_at :: "pystr option"
  paused_at :: "pystr option option"
  total_files :: "nat option"
  all_files :: "pystr list option"
  processed_files :: "pystr list option"
  failed_files :: "failed_entry list option"
  settings_hash :: "pystr option"

text \<open>The empty dictionary \<open>{}\<close>: the state after \<open>__init__\<close> and after \<open>clear\<close>.\<close>

definition empty_data :: checkpoint_data where
  "empty_data = \<lparr>session_id = None, started_at = None, paused_at = None, total_files = None,
     all_files = None, processed_files = None, failed_files = None, settings_hash = None\<rparr>"

text \<open>\<open>not self.data\<close>: a dictionary is falsy exactly when it has no key.\<close>

definition data_is_empty :: "checkpoint_data \<Rightarrow> bool" where
  "data_is_empty data \<longleftrightarrow>
     session_id data = None \<and> started_at data = None \<and> paused_at data = None \<and>
     total_files data = None \<and> all_files data = None \<and> processed_files data = None \<and>
     failed_files data = None \<and> settings_hash data = None"

text \<open>\<open>d.get(key, [])\<close> on a list-valued key.\<close>

definition get_list :: "'a list option \<Rightarrow> 'a list" where
  "get_list v = (case v of None \<Rightarrow> [] | Some xs \<Rightarrow> xs)"

text \<open>
  \<^verbatim>\<open>
  def get_pending_files(self) -> List[str]:
      if not self.data:
          return []
      processed = set(self.data.get("processed_files", []))
      failed = set(f["file"] for f in self.data.get("failed_files", []))
      all_files = self.data.get("all_files", [])
      return [f for f in all_files if f not in processed and f not in failed]
  \<close>
\<close>

definition get_pending_files :: "checkpoint_data \<Rightarrow> pystr list" where
  "get_pending_files data =
     (if data_is_empty data then []
      else
        let processed = set (get_list (processed_files data));
            failed = set (map entry_file (get_list (failed_files data)));
            all_files = get_list (all_files data)
        in filter (\<lambda>f. f \<notin> processed \<and> f \<notin> failed) all_files)"

text \<open>
  \<^verbatim>\<open>
  def mark_processed(self, filename: str) -> None:
      if "processed_files" not in self.data:
          self.data["processed_files"] = []
      self.data["processed_files"].append(filename)
  \<close>
\<close>

definition mark_processed :: "pystr \<Rightarrow> checkpoint_data \<Rightarrow> checkpoint_data" where
  "mark_processed filename data =
     (let data1 = (if processed_files data = None then data\<lparr>processed_files := Some []\<rparr> else data)
      in data1\<lparr>processed_files := Some (get_list (processed_files data1) @ [filename])\<rparr>)"

text \<open>
  \<^verbatim>\<open>
  def mark_failed(self, filename: str, error: str) -> None:
      if "failed_files" not in self.data:
          self.data["failed_files"] = []
      self.data["failed_files"].append({
          "file": filename, "error": error,
          "timestamp": datetime.now().isoformat()})
  \<close>
  The clock's reading \<open>now\<close> is an argument.
\<close>

definition mark_failed :: "pystr \<Rightarrow> pystr \<Rightarrow> pystr \<Rightarrow> checkpoint_data \<Rightarrow> checkpoint_data" where
  "mark_failed filename err now data =
     (let data1 = (if failed_files data = None then data\<lparr>failed_files := Some []\<rparr> else data)
      in data1\<lparr>failed_files :=
           Some (get_list (failed_files data1) @ [\<lparr>entry_file = filename, entry_error = err, entry_timestamp = now\<rparr>])\<rparr>)"

text \<open>
  \<^verbatim>\<open>
  def create_session(self, total_files: List[str], settings_hash: str) -> None:
      self.data = {
          "session_id": self.session_id,
          "started_at": datetime.now().isoformat(),
          "paused_at": None,
          "total_files": len(total_files),
          "all_files": total_files,
          "processed_files": [],
          "failed_files": [],
          "settings_hash": settings_hash}
      self._save()
  \<close>
  Writing the file (\<open>_save\<close>) does not change \<open>data\<close>.
\<close>

definition create_session :: "pystr \<Rightarrow> pystr \<Rightarrow> pystr list \<Rightarrow> pystr \<Rightarrow> checkpoint_data" where
  "create_session sid now files hash =
     \<lparr>session_id = Some sid, started_at = Some now, paused_at = Some None,
      total_files = Some (length files), all_files = Some files,
      processed_files = Some [], failed_files = Some [], settings_hash = Some hash\<rparr>"

text \<open>
  The marking calls a run makes between two reads of the pending files, in order.
\<close>

datatype mark = MarkProcessed pystr | MarkFailed pystr pystr pystr

fun apply_mark :: "checkpoint_data \<Rightarrow> mark \<Rightarrow> checkpoint_data" where
  "apply_mark data (MarkProcessed filename) = mark_processed filename data"
| "apply_mark data (MarkFailed filename err now) = mark_failed filename err now data"

definition apply_marks :: "checkpoint_data \<Rightarrow> mark list \<Rightarrow> checkpoint_data" where
  "apply_marks data ms = foldl apply_mark data ms"

section \<open>Python string operations\<close>

text \<open>
  The code points for which \<open>str.isspace\<close> holds: these are what \<open>str.split()\<close>
  without argument splits on and what \<open>str.strip()\<close> removes.
\<close>

definition is_space :: "nat \<Rightarrow> bool" where
  "is_space c \<longleftrightarrow>
     (9 \<le> c \<and> c \<le> 13) \<or> (28 \<le> c \<and> c \<le> 32) \<or> c = 133 \<or> c = 160 \<or> c = 5760 \<or>
     (8192 \<le> c \<and> c \<le> 8202) \<or> c = 8232 \<or> c = 8233 \<or> c = 8239 \<or> c = 8287 \<or> c = 12288"

text \<open>
  \<open>s.split()\<close>: the maximal runs of non-whitespace code points of \<open>s\<close>, in order. The
  scan carries the word read so far.
\<close>

fun split_scan :: "pystr \<Rightarrow> pystr \<Rightarrow> pystr list" where
  "split_scan word [] = (if word = [] then [] else [word])"
| "split_scan word (c # cs) =
     (if is_space c
      then (if word = [] then split_scan [] cs else word # split_scan [] cs)
      else split_scan (word @ [c]) cs)"

definition py_split :: "pystr \<Rightarrow> pystr list" where
  "py_split s = split_scan [] s"

text \<open>
  \<open>s.split(sep)\<close> for a separator of one code point: the pieces between the
  occurrences of \<open>sep\<close>, empty pieces included, so the result is never empty.
\<close>

fun split_sep_scan :: "nat \<Rightarrow> pystr \<Rightarrow> pystr \<Rightarrow> pystr list" where
  "split_sep_scan sep piece [] = [piece]"
| "split_sep_scan sep piece (c # cs) =
     (if c = sep then piece # split_sep_scan sep [] cs
      else split_sep_scan sep (piece @ [c]) cs)"

definition py_split_sep :: "nat \<Rightarrow> pystr \<Rightarrow> pystr list" where
  "py_split_sep sep s = split_sep_scan sep [] s"

text \<open>\<open>s.strip()\<close> removes the whitespace at both ends.\<close>

definition py_strip :: "pystr \<Rightarrow> pystr" where
  "py_strip s = rev (dropWhile is_space (rev (dropWhile is_space s)))"

text \<open>\<open>s.replace(old, new)\<close> for \<open>old\<close> and \<open>new\<close> of one code point each.\<close>

definition py_replace :: "nat \<Rightarrow> nat \<Rightarrow> pystr \<Rightarrow> pystr" where
  "py_replace old new s = map (\<lambda>c. if c = old then new else c) s"

text \<open>The code point of the line feed \<open>'\n'\<close> and of the space.\<close>

definition LF :: nat where
  "LF = 10"

definition SP :: nat where
  "SP = 32"

text \<open>A word: a non-empty string without whitespace.\<close>

definition is_word :: "pystr \<Rightarrow> bool" where
  "is_word w \<longleftrightarrow> w \<noteq> [] \<and> list_all (\<lambda>c. \<not> is_space c) w"

section \<open>image\_processor.py: text wrapping\<close>

text \<open>
  A font as \<open>_wrap_text\<close> uses it: \<open>font.getbbox(line)\<close> returns the box
  \<open>(x0, y0, x1, y1)\<close> or raises (\<open>None\<close>), and \<open>font.size\<close> is the size the
  font was loaded with.
\<close>

record font =
  getbbox :: "pystr \<Rightarrow> (int \<times> int \<times> int \<times> int) option"
  size_font :: int

text \<open>
  \<^verbatim>\<open>
  try:
      bbox = font.getbbox(test_line)
      line_width = bbox[2] - bbox[0]
  except:
      line_width = len(test_line) * (font.size // 2)
  \<close>
\<close>

definition line_width :: "font \<Rightarrow> pystr \<Rightarrow> int" where
  "line_width font test_line =
     (case getbbox font test_line of
        Some (x0, y0, x1, y1) \<Rightarrow> x1 - x0
      | None \<Rightarrow> int (length test_line) * (size_font font div 2))"

text \<open>
  \<^verbatim>\<open>
  def _wrap_text(self, text, font, max_width):
      lines = []
      for paragraph in text.split('\n'):
          words = paragraph.split()
          if not words:
              lines.append('')
              continue
          current_line = words[0]
          for word in words[1:]:
              test_line = f"{current_line} {word}"
              (line_width as above)
              if line_width <= max_width:
                  current_line = test_line
              else:
                  lines.append(current_line)
                  current_line = word
          lines.append(current_line)
      return lines
  \<close>
  \<open>wrap_words\<close> is the inner loop on \<open>(lines, current_line)\<close>, \<open>wrap_paragraphs\<close> the
  outer loop on \<open>lines\<close>.
\<close>

fun wrap_words :: "font \<Rightarrow> int \<Rightarrow> pystr list \<Rightarrow> pystr \<Rightarrow> pystr list \<Rightarrow> pystr list \<times> pystr" where
  "wrap_words font max_width lines current_line [] = (lines, current_line)"
| "wrap_words font max_width lines current_line (word # rest) =
     (let test_line = current_line @ [SP] @ word
      in if line_width font test_line \<le> max_width
         then wrap_words font max_width lines test_line rest
         else wrap_words font max_width (lines @ [current_line]) word rest)"

fun wrap_paragraphs :: "font \<Rightarrow> int \<Rightarrow> pystr list \<Rightarrow> pystr list \<Rightarrow> pystr list" where
  "wrap_paragraphs font max_width lines [] = lines"
| "wrap_paragraphs font max_width lines (paragraph # rest) =
     (case py_split paragraph of
        [] \<Rightarrow> wrap_paragraphs font max_width (lines @ [[]]) rest
      | first # others \<Rightarrow>
          (case wrap_words font max_width lines first others of
             (lines', current_line) \<Rightarrow>
               wrap_paragraphs font max_width (lines' @ [current_line]) rest))"

definition wrap_text :: "pystr \<Rightarrow> font \<Rightarrow> int \<Rightarrow> pystr list" where
  "wrap_text text font max_width = wrap_paragraphs font max_width [] (py_split_sep LF text)"

text \<open>A font whose every code point is \<open>w\<close> pixels wide, for concrete evaluations.\<close>

definition mono_font :: "int \<Rightarrow> int \<Rightarrow> font" where
  "mono_font w sz = \<lparr>getbbox = (\<lambda>s. Some (0, 0, w * int (length s), sz)), size_font = sz\<rparr>"

text \<open>A sample for concrete evaluations: three paragraphs, the second empty.\<close>

definition sample_text :: pystr where
  "sample_text = py ''aaaaaaaa bb cc'' @ [LF] @ [LF] @ py ''dd''"

definition sample_font :: font where
  "sample_font = mono_font 10 12"

section \<open>excel\_reader.py: ExcelReader\<close>

text \<open>
  The value of a worksheet cell: a string, an integer, or a value of another type
  (a float, a date), which the reader only ever passes to \<open>str\<close>; such a value is carried
  by the text \<open>str\<close> gives for it (the float \<open>1.1\<close> by \<open>1.1\<close>). An empty cell is \<open>None\<close>.
\<close>

datatype cell = CellStr pystr | CellInt int | CellOther pystr

fun py_str :: "cell \<Rightarrow> pystr" where
  "py_str (CellStr s) = s"
| "py_str (CellInt i) = str_int i"
| "py_str (CellOther s) = s"

text \<open>
  The active worksheet: its rows from row 1, each the cells from column 1; a cell
  beyond the stored ones is empty. \<open>sheet.cell(row=r, column=c)\<close> raises
  \<open>ValueError\<close> when \<open>r\<close> or \<open>c\<close> is less than 1.
\<close>

type_synonym worksheet = "cell option list list"

definition sheet_cell :: "worksheet \<Rightarrow> int \<Rightarrow> int \<Rightarrow> exn + cell option" where
  "sheet_cell ws r c =
     (if r < 1 \<or> c < 1 then Inl (ValueError (py ''Row or column values must be at least 1''))
      else if nat r \<le> length ws \<and> nat c \<le> length (ws ! (nat r - 1))
           then Inr (ws ! (nat r - 1) ! (nat c - 1))
           else Inr None)"

text \<open>
  A row's fields, and the reader's \<open>data\<close>: dictionaries in insertion order, as
  association lists; \<open>d[k] = v\<close> is \<open>AList.update k v d\<close> and \<open>d.get(k)\<close> is
  \<open>map_of d k\<close>.
\<close>

type_synonym row_data = "(pystr \<times> pystr) list"

record excel_reader =
  xl_loaded :: bool
  xl_sheet :: worksheet
  xl_data :: "(pystr \<times> row_data) list"

definition DEFAULT_COLUMNS :: "(pystr \<times> int) list" where
  "DEFAULT_COLUMNS =
     [(py ''position'', 0), (py ''supplier'', 19), (py ''kpp'', 21), (py ''inn'', 22),
      (py ''hyperlink'', 23)]"

definition DATA_START_ROW :: int where
  "DATA_START_ROW = 11"

text \<open>
  \<^verbatim>\<open>
  def _normalize_position(self, position: str) -> str:
      position = position.strip()
      position = position.replace(".", "-")
      return position
  \<close>
  Code point 46 is the full stop, 45 the hyphen.
\<close>

definition normalize_position :: "pystr \<Rightarrow> pystr" where
  "normalize_position position = py_replace 46 45 (py_strip position)"

text \<open>
  \<^verbatim>\<open>
  row_data = {}
  for field_name, col_index in columns.items():
      if field_name == "position":
          continue
      cell_value = self.sheet.cell(row=row_num, column=col_index + 1).value
      row_data[field_name] = str(cell_value) if cell_value is not None else ""
  \<close>
\<close>

fun read_row_data :: "worksheet \<Rightarrow> int \<Rightarrow> (pystr \<times> int) list \<Rightarrow> row_data \<Rightarrow> exn + row_data" where
  "read_row_data ws row_num [] row_data = Inr row_data"
| "read_row_data ws row_num ((field_name, col_index) # rest) row_data =
     (if field_name = py ''position'' then read_row_data ws row_num rest row_data
      else case sheet_cell ws row_num (col_index + 1) of
             Inl e \<Rightarrow> Inl e
           | Inr cell_value \<Rightarrow>
               read_row_data ws row_num rest
                 (AList.update field_name
                    (case cell_value of None \<Rightarrow> [] | Some v \<Rightarrow> py_str v) row_data))"

text \<open>
  One pass through the body of the \<open>while True\<close> loop of \<open>parse\<close>:
  \<^verbatim>\<open>
  position_cell = self.sheet.cell(row=row_num, column=columns["position"] + 1)
  position_value = position_cell.value
  if position_value is None or str(position_value).strip() == "":
      break
  position_key = self._normalize_position(str(position_value))
  row_data = (as above)
  self.data[position_key] = row_data
  row_num += 1
  \<close>
  It breaks, stores a row, or raises.
\<close>

datatype parse_step = Break | Stored "(pystr \<times> row_data) list" | Raised exn

definition parse_row :: "worksheet \<Rightarrow> (pystr \<times> int) list \<Rightarrow> int \<Rightarrow> (pystr \<times> row_data) list \<Rightarrow> parse_step" where
  "parse_row ws columns row_num entries =
     (case map_of columns (py ''position'') of
        None \<Rightarrow> Raised (KeyError ([39] @ py ''position'' @ [39]))
      | Some position_col \<Rightarrow>
          (case sheet_cell ws row_num (position_col + 1) of
             Inl e \<Rightarrow> Raised e
           | Inr None \<Rightarrow> Break
           | Inr (Some position_value) \<Rightarrow>
               if py_strip (py_str position_value) = [] then Break
               else
                 let position_key = normalize_position (py_str position_value)
                 in case read_row_data ws row_num columns [] of
                      Inl e \<Rightarrow> Raised e
                    | Inr row_data \<Rightarrow> Stored (AList.update position_key row_data entries)))"

text \<open>
  The loop itself. It ends: a row is stored only when its position cell holds a value,
  so only at a row the worksheet has.
\<close>

function parse_loop ::
  "worksheet \<Rightarrow> (pystr \<times> int) list \<Rightarrow> int \<Rightarrow> (pystr \<times> row_data) list
     \<Rightarrow> (pystr \<times> row_data) list \<times> exn option" where
  "parse_loop ws columns row_num entries =
     (case parse_row ws columns row_num entries of
        Break \<Rightarrow> (entries, None)
      | Raised e \<Rightarrow> (entries, Some e)
      | Stored entries' \<Rightarrow> parse_loop ws columns (row_num + 1) entries')"
  by pat_completeness auto
termination
proof (relation "measure (\<lambda>(ws, columns, row_num, entries). nat (int (length ws) + 1 - row_num))")
  show "wf (measure (\<lambda>(ws, columns, row_num, entries). nat (int (length ws) + 1 - row_num)))"
    by simp
next
  fix ws :: worksheet and columns row_num entries entries'
  assume "parse_row ws columns row_num entries = Stored entries'"
  then have "row_num \<le> int (length ws)"
    by (auto simp: parse_row_def sheet_cell_def Let_def
        split: option.splits sum.splits if_splits)
  then show "((ws, columns, row_num + 1, entries'), (ws, columns, row_num, entries))
             \<in> measure (\<lambda>(ws, columns, row_num, entries). nat (int (length ws) + 1 - row_num))"
    by simp
qed

declare parse_loop.simps [simp del]

text \<open>
  The messages of \<open>parse\<close>, as code points: ``Excel [file not loaded]'',
  ``[Loaded] '', `` [records]'' and ``[Parse error]: '' in Russian.
\<close>

definition msg_not_loaded :: pystr where
  "msg_not_loaded = py ''Excel '' @
     [1092, 1072, 1081, 1083, 32, 1085, 1077, 32, 1079, 1072, 1075, 1088, 1091, 1078, 1077, 1085]"

definition msg_loaded :: pystr where
  "msg_loaded = [1047, 1072, 1075, 1088, 1091, 1078, 1077, 1085, 1086, 32]"

definition msg_records :: pystr where
  "msg_records = [32, 1079, 1072, 1087, 1080, 1089, 1077, 1081]"

definition msg_parse_error :: pystr where
  "msg_parse_error =
     [1054, 1096, 1080, 1073, 1082, 1072, 32, 1087, 1072, 1088, 1089, 1080, 1085, 1075, 1072, 58, 32]"

text \<open>
  \<^verbatim>\<open>
  def parse(self, column_mapping=None):
      if not self._loaded:
          return False, "Excel [file not loaded]"
      columns = column_mapping or self.DEFAULT_COLUMNS
      try:
          row_num = self.DATA_START_ROW
          while True: (the loop above)
          return True, f"[Loaded] {len(self.data)} [records]"
      except Exception as e:
          return False, f"[Parse error]: {str(e)}"
  \<close>
  The rows stored before an exception stay in \<open>data\<close>.
\<close>

definition parse :: "(pystr \<times> int) list option \<Rightarrow> excel_reader \<Rightarrow> excel_reader \<times> bool \<times> pystr" where
  "parse column_mapping reader =
     (if \<not> xl_loaded reader then (reader, False, msg_not_loaded)
      else
        let columns = (case column_mapping of
                         None \<Rightarrow> DEFAULT_COLUMNS
                       | Some [] \<Rightarrow> DEFAULT_COLUMNS
                       | Some (c # cs) \<Rightarrow> c # cs)
        in case parse_loop (xl_sheet reader) columns DATA_START_ROW (xl_data reader) of
             (entries, None) \<Rightarrow>
               (reader\<lparr>xl_data := entries\<rparr>,
                True, msg_loaded @ str_int (int (length entries)) @ msg_records)
           | (entries, Some e) \<Rightarrow>
               (reader\<lparr>xl_data := entries\<rparr>, False, msg_parse_error @ exn_str e))"

text \<open>
  \<open>Path(filename).stem\<close>, after \<open>pathlib\<close> for POSIX paths (Python 3.8 to 3.13): the
  path is split at \<open>/\<close> (code point 47), the empty components and the components \<open>.\<close>
  are dropped, and the name is the last component left, or the empty string. The stem
  is the name up to its last full stop, when that full stop is neither the first nor
  the last code point of the name, and the whole name otherwise.
\<close>

fun rfind_scan :: "nat \<Rightarrow> int \<Rightarrow> int \<Rightarrow> pystr \<Rightarrow> int" where
  "rfind_scan c found i [] = found"
| "rfind_scan c found i (x # xs) = rfind_scan c (if x = c then i else found) (i + 1) xs"

definition rfind :: "nat \<Rightarrow> pystr \<Rightarrow> int" where
  "rfind c s = rfind_scan c (- 1) 0 s"

definition path_name :: "pystr \<Rightarrow> pystr" where
  "path_name path =
     (case rev (filter (\<lambda>part. part \<noteq> [] \<and> part \<noteq> [46]) (py_split_sep 47 path)) of
        [] \<Rightarrow> []
      | name # _ \<Rightarrow> name)"

definition path_stem :: "pystr \<Rightarrow> pystr" where
  "path_stem path =
     (let name = path_name path; i = rfind 46 name
      in if 0 < i \<and> i < int (length name) - 1 then take (nat i) name else name)"

text \<open>
  \<^verbatim>\<open>
  def get_data_for_file(self, filename: str) -> Optional[Dict]:
      position_key = Path(filename).stem
      return self.data.get(position_key)
  \<close>
\<close>

definition get_data_for_file :: "excel_reader \<Rightarrow> pystr \<Rightarrow> row_data option" where
  "get_data_for_file reader filename =
     (let position_key = path_stem filename in map_of (xl_data reader) position_key)"

text \<open>
  A sample worksheet: ten heading rows, then the position \<open>1.1\<close> (a float) with a
  supplier in column T, then the position \<open>2\<close>, then an empty row.
\<close>

definition sample_sheet :: worksheet where
  "sample_sheet =
     replicate 10 [] @
     [[Some (CellOther (py ''1.1''))] @ replicate 18 None @ [Some (CellStr (py ''ACME''))],
      [Some (CellInt 2)],
      []]"

definition sample_reader :: excel_reader where
  "sample_reader = \<lparr>xl_loaded = True, xl_sheet = sample_sheet, xl_data = []\<rparr>"

definition sample_row :: row_data where
  "sample_row =
     [(py ''supplier'', py ''ACME''), (py ''kpp'', []), (py ''inn'', []), (py ''hyperlink'', [])]"

definition sample_row2 :: row_data where
  "sample_row2 = [(py ''supplier'', []), (py ''kpp'', []), (py ''inn'', []), (py ''hyperlink'', [])]"

section \<open>image\_processor.py: ImageProcessor.process\_image\<close>

text \<open>
  The settings dictionary. Every key is read with \<open>settings.get(key, default)\<close>, so an
  absent key is \<open>None\<close> here and the reading functions below supply the default of the
  code. \<open>excel_fields\<close> maps a field name to its \<open>enabled\<close> flag, \<open>element_offsets\<close> an
  element name to its \<open>(x, y)\<close> offset. A float (\<open>stamp_scale\<close>) is carried by its value, a
  rational number.
\<close>

record settings =
  cfg_panel_width :: "int option"
  cfg_position :: "pystr option"
  cfg_background_color :: "pystr option"
  cfg_font_size :: "int option"
  cfg_text_color :: "pystr option"
  cfg_format :: "pystr option"
  cfg_excel_fields :: "(pystr \<times> bool) list option"
  cfg_stamp_enabled :: "bool option"
  cfg_stamp_scale :: "rat option"
  cfg_element_offsets :: "(pystr \<times> int \<times> int) list option"

definition get_or :: "'a option \<Rightarrow> 'a \<Rightarrow> 'a" where
  "get_or v dflt = (case v of None \<Rightarrow> dflt | Some x \<Rightarrow> x)"

text \<open>\<open>excel_fields.get(name, {}).get("enabled")\<close>, as a truth value.\<close>

definition field_enabled :: "settings \<Rightarrow> pystr \<Rightarrow> bool" where
  "field_enabled st name =
     (case map_of (get_or (cfg_excel_fields st) []) name of None \<Rightarrow> False | Some b \<Rightarrow> b)"

text \<open>\<open>element_offsets.get(name, (0, 0))\<close>.\<close>

definition element_offset :: "settings \<Rightarrow> pystr \<Rightarrow> int \<times> int" where
  "element_offset st name =
     (case map_of (get_or (cfg_element_offsets st) []) name of None \<Rightarrow> (0, 0) | Some off \<Rightarrow> off)"

text \<open>
  What \<open>process_image\<close> takes from outside the program: the imaging library, the file
  system and floating-point arithmetic. Each is a function the model is given, and every
  statement below holds for all of them.
  \<^item> \<open>image_open path\<close>: \<open>Image.open(path)\<close> followed by the conversion to RGBA; the
    size \<open>(width, height)\<close> of the image, or the exception raised.
  \<^item> \<open>get_font size\<close>: \<open>self._get_font(size)\<close>, which searches the system's font files.
  \<^item> \<open>image_new size color\<close>: \<open>Image.new('RGBA', size, color)\<close>; \<open>Some e\<close> when it
    raises (a size it refuses, a colour name it does not know).
  \<^item> \<open>draw_text_raises color string\<close>: \<open>draw.text(xy, string, fill=color, font=font)\<close>;
    \<open>Some e\<close> when it raises (a colour it does not know, a string the font cannot draw).
  \<^item> \<open>draw_line_raises color\<close>: \<open>draw.line([a, b], fill=color, width=1)\<close>.
  \<^item> \<open>image_resize size\<close>: \<open>stamp_image.resize(size, LANCZOS)\<close>.
  \<^item> \<open>stamp_paste size xy\<close>: \<open>result.paste(stamp_resized, xy, stamp_resized)\<close> for the
    stamp resized to \<open>size\<close>.
  \<^item> \<open>image_save path kind\<close>: creating the output directory, converting the result to
    RGB for a JPEG or PDF file, and writing the file.
  \<^item> \<open>float_mul n x\<close>: the float \<open>n * x\<close> for an integer \<open>n\<close> and a float \<open>x\<close>.
  \<^item> \<open>float_div a b\<close>: the float \<open>a / b\<close> for integers \<open>a\<close> and \<open>b \<noteq> 0\<close>.
  The two float operations round in ways that are not modelled; \<open>int\<close> of a float is
  modelled: it truncates towards zero.
\<close>

datatype save_kind = PDF | JPEG | PNG

record env =
  image_open :: "pystr \<Rightarrow> exn + int \<times> int"
  get_font :: "int \<Rightarrow> exn + font"
  image_new :: "int \<times> int \<Rightarrow> pystr \<Rightarrow> exn option"
  draw_text_raises :: "pystr \<Rightarrow> pystr \<Rightarrow> exn option"
  draw_line_raises :: "pystr \<Rightarrow> exn option"
  image_resize :: "int \<times> int \<Rightarrow> exn option"
  stamp_paste :: "int \<times> int \<Rightarrow> int \<times> int \<Rightarrow> exn option"
  image_save :: "pystr \<Rightarrow> save_kind \<Rightarrow> exn option"
  float_mul :: "int \<Rightarrow> rat \<Rightarrow> rat"
  float_div :: "int \<Rightarrow> int \<Rightarrow> rat"

text \<open>\<open>int(x)\<close> for a float \<open>x\<close>: the integer part, truncated towards zero.\<close>

definition py_int :: "rat \<Rightarrow> int" where
  "py_int x = (if x < 0 then \<lceil>x\<rceil> else \<lfloor>x\<rfloor>)"

text \<open>
  \<open>excel_fields.get(name, {}).get("enabled") and excel_data.get(name)\<close>, as a truth
  value. \<open>excel_data\<close> is a row of the spreadsheet, a dictionary of strings; \<open>None\<close> in
  its place has no \<open>get\<close>, and the \<open>and\<close> reaches it only when the field is enabled.
\<close>

definition field_shown :: "settings \<Rightarrow> row_data option \<Rightarrow> pystr \<Rightarrow> exn + bool" where
  "field_shown st excel_data name =
     (if \<not> field_enabled st name then Inr False
      else case excel_data of
             None \<Rightarrow> Inl (AttributeError ([39] @ py ''NoneType'' @ [39] @ py '' object has no attribute '' @ [39] @ py ''get'' @ [39]))
           | Some row \<Rightarrow> Inr (case map_of row name of None \<Rightarrow> False | Some v \<Rightarrow> v \<noteq> []))"

text \<open>\<open>excel_data[name]\<close>, read only after \<open>excel_data.get(name)\<close> was true.\<close>

definition field_value :: "row_data option \<Rightarrow> pystr \<Rightarrow> pystr" where
  "field_value excel_data name =
     (case excel_data of None \<Rightarrow> [] | Some row \<Rightarrow> (case map_of row name of None \<Rightarrow> [] | Some v \<Rightarrow> v))"

text \<open>
  The labels, as code points: ``[TIN]: '', ``[KPP]: '', ``[Supplier]:'' followed by a
  line feed, and ``[Link]: '' in Russian.
\<close>

definition label_inn :: pystr where
  "label_inn = [1048, 1053, 1053, 58, 32]"

definition label_kpp :: pystr where
  "label_kpp = [1050, 1055, 1055, 58, 32]"

definition label_supplier :: pystr where
  "label_supplier = [1055, 1086, 1089, 1090, 1072, 1074, 1097, 1080, 1082, 58, 10]"

definition label_link :: pystr where
  "label_link = [1057, 1089, 1099, 1083, 1082, 1072, 58, 32]"

subsection \<open>The sizing pass\<close>

text \<open>
  Both branches of the sizing pass (\<open>position == "left"\<close> and the other) run the same
  statements on \<open>required_height\<close> and \<open>panel_height\<close>; they differ in the width the texts
  are wrapped at and the stamp is limited to: \<open>panel_width - 20\<close> on the left,
  \<open>original.width - 20\<close> at the bottom. That width is the argument \<open>avail\<close>.
  \<^verbatim>\<open>
  if excel_fields.get("inn", {}).get("enabled") and excel_data.get("inn"):
      required_height += line_height
  \<close>
\<close>

definition one_line_height :: "settings \<Rightarrow> row_data option \<Rightarrow> pystr \<Rightarrow> int \<Rightarrow> exn + int" where
  "one_line_height st excel_data name line_height =
     (case field_shown st excel_data name of
        Inl e \<Rightarrow> Inl e
      | Inr shown \<Rightarrow> Inr (if shown then line_height else 0))"

text \<open>
  \<^verbatim>\<open>
  if excel_fields.get("supplier", {}).get("enabled") and excel_data.get("supplier"):
      supplier_text = f"[Supplier]:\n{excel_data['supplier']}"
      supplier_lines = self._wrap_text(supplier_text, font, panel_width - 20)
      required_height += len(supplier_lines) * line_height
  \<close>
  and the same for the hyperlink with the label ``[Link]: ''.
\<close>

definition wrapped_height ::
  "settings \<Rightarrow> row_data option \<Rightarrow> pystr \<Rightarrow> pystr \<Rightarrow> font \<Rightarrow> int \<Rightarrow> int \<Rightarrow> exn + int" where
  "wrapped_height st excel_data name label fnt avail line_height =
     (case field_shown st excel_data name of
        Inl e \<Rightarrow> Inl e
      | Inr shown \<Rightarrow>
          Inr (if shown
               then int (length (wrap_text (label @ field_value excel_data name) fnt avail)) * line_height
               else 0))"

text \<open>
  \<^verbatim>\<open>
  for text in fixed_texts:
      if text:
          lines = self._wrap_text(text, font, panel_width - 20)
          required_height += len(lines) * line_height
  \<close>
\<close>

fun fixed_texts_height :: "pystr list \<Rightarrow> font \<Rightarrow> int \<Rightarrow> int \<Rightarrow> int \<Rightarrow> int" where
  "fixed_texts_height [] fnt avail line_height required_height = required_height"
| "fixed_texts_height (t # rest) fnt avail line_height required_height =
     fixed_texts_height rest fnt avail line_height
       (if t \<noteq> [] then required_height + int (length (wrap_text t fnt avail)) * line_height
        else required_height)"

text \<open>
  \<^verbatim>\<open>
  if self.stamp_image and self.settings.get("stamp_enabled", True):
      stamp_scale = self.settings.get("stamp_scale", 1.0)
      stamp_width = int(self.stamp_image.width * stamp_scale)
      stamp_height = int(self.stamp_image.height * stamp_scale)
      if stamp_width > panel_width - 20:
          ratio = (panel_width - 20) / stamp_width
          stamp_height = int(stamp_height * ratio)
      required_height += stamp_height + 40
  \<close>
  \<open>stamp_image\<close> is the size of the loaded stamp, or \<open>None\<close>. The division raises
  \<open>ZeroDivisionError\<close> when \<open>stamp_width\<close> is 0.
\<close>

definition stamp_room :: "env \<Rightarrow> settings \<Rightarrow> (int \<times> int) option \<Rightarrow> int \<Rightarrow> exn + int" where
  "stamp_room ev st stamp_image avail =
     (case stamp_image of
        None \<Rightarrow> Inr 0
      | Some (width, height) \<Rightarrow>
          if \<not> get_or (cfg_stamp_enabled st) True then Inr 0
          else
            let stamp_scale = get_or (cfg_stamp_scale st) 1;
                stamp_width = py_int (float_mul ev width stamp_scale);
                stamp_height = py_int (float_mul ev height stamp_scale)
            in if stamp_width > avail
               then (if stamp_width = 0 then Inl (ZeroDivisionError (py ''division by zero''))
                     else Inr (py_int (float_mul ev stamp_height (float_div ev avail stamp_width))
                               + 40))
               else Inr (stamp_height + 40))"

text \<open>
  The height the sizing pass arrives at, from the initial 20: the fields, the
  separator's 25, the fixed texts, the stamp.
\<close>

definition content_height ::
  "env \<Rightarrow> settings \<Rightarrow> (int \<times> int) option \<Rightarrow> row_data option \<Rightarrow> pystr list \<Rightarrow> font \<Rightarrow> int \<Rightarrow> int
     \<Rightarrow> exn + int" where
  "content_height ev st stamp_image excel_data fixed_texts fnt avail line_height =
     (case one_line_height st excel_data (py ''inn'') line_height of
        Inl e \<Rightarrow> Inl e
      | Inr h_inn \<Rightarrow>
     (case one_line_height st excel_data (py ''kpp'') line_height of
        Inl e \<Rightarrow> Inl e
      | Inr h_kpp \<Rightarrow>
     (case wrapped_height st excel_data (py ''supplier'') label_supplier fnt avail line_height of
        Inl e \<Rightarrow> Inl e
      | Inr h_supplier \<Rightarrow>
     (case wrapped_height st excel_data (py ''hyperlink'') label_link fnt avail line_height of
        Inl e \<Rightarrow> Inl e
      | Inr h_link \<Rightarrow>
     (case stamp_room ev st stamp_image avail of
        Inl e \<Rightarrow> Inl e
      | Inr h_stamp \<Rightarrow>
          Inr (fixed_texts_height fixed_texts fnt avail line_height
                 (20 + h_inn + h_kpp + h_supplier + h_link + 25) + h_stamp))))))"

text \<open>
  The canvas the sizing pass ends with: its size, where the source image is pasted
  and the panel's rectangle \<open>(x0, y0, x1, y1)\<close>.
  \<^verbatim>\<open>
  if position == "left":
      (required_height as above, with panel_width - 20)
      new_height = max(original.height, required_height + 20)
      new_width = original.width + panel_width
      result = Image.new('RGBA', (new_width, new_height), bg_color)
      result.paste(original, (panel_width, 0))
      panel_area = (0, 0, panel_width, new_height)
  else:
      (panel_height as above, with original.width - 20)
      panel_height += 20
      new_width = original.width
      new_height = original.height + panel_height
      result = Image.new('RGBA', (new_width, new_height), bg_color)
      result.paste(original, (0, 0))
      panel_area = (0, original.height, new_width, new_height)
  \<close>
\<close>

record canvas =
  canvas_size :: "int \<times> int"
  pasted_at :: "int \<times> int"
  panel_area :: "int \<times> int \<times> int \<times> int"

definition required_height ::
  "env \<Rightarrow> settings \<Rightarrow> (int \<times> int) option \<Rightarrow> row_data option \<Rightarrow> pystr list \<Rightarrow> font \<Rightarrow> exn + int" where
  "required_height ev st stamp_image excel_data fixed_texts fnt =
     content_height ev st stamp_image excel_data fixed_texts fnt
       (get_or (cfg_panel_width st) 300 - 20) (get_or (cfg_font_size st) 12 + 8)"

definition panel_height ::
  "env \<Rightarrow> settings \<Rightarrow> (int \<times> int) option \<Rightarrow> row_data option \<Rightarrow> pystr list \<Rightarrow> font \<Rightarrow> int \<Rightarrow> exn + int" where
  "panel_height ev st stamp_image excel_data fixed_texts fnt original_width =
     (case content_height ev st stamp_image excel_data fixed_texts fnt
             (original_width - 20) (get_or (cfg_font_size st) 12 + 8) of
        Inl e \<Rightarrow> Inl e
      | Inr h \<Rightarrow> Inr (h + 20))"

definition make_canvas ::
  "env \<Rightarrow> settings \<Rightarrow> (int \<times> int) option \<Rightarrow> row_data option \<Rightarrow> pystr list \<Rightarrow> font \<Rightarrow> int \<times> int
     \<Rightarrow> exn + canvas" where
  "make_canvas ev st stamp_image excel_data fixed_texts fnt original =
     (let panel_width = get_or (cfg_panel_width st) 300;
          bg_color = get_or (cfg_background_color st) (py ''#FFFFFF'')
      in if get_or (cfg_position st) (py ''left'') = py ''left''
         then
           (case required_height ev st stamp_image excel_data fixed_texts fnt of
              Inl e \<Rightarrow> Inl e
            | Inr required \<Rightarrow>
                let new_height = max (snd original) (required + 20);
                    new_width = fst original + panel_width
                in case image_new ev (new_width, new_height) bg_color of
                     Some e \<Rightarrow> Inl e
                   | None \<Rightarrow>
                       Inr \<lparr>canvas_size = (new_width, new_height),
                            pasted_at = (panel_width, 0),
                            panel_area = (0, 0, panel_width, new_height)\<rparr>)
         else
           (case panel_height ev st stamp_image excel_data fixed_texts fnt (fst original) of
              Inl e \<Rightarrow> Inl e
            | Inr panel_h \<Rightarrow>
                let new_width = fst original;
                    new_height = snd original + panel_h
                in case image_new ev (new_width, new_height) bg_color of
                     Some e \<Rightarrow> Inl e
                   | None \<Rightarrow>
                       Inr \<lparr>canvas_size = (new_width, new_height),
                            pasted_at = (0, 0),
                            panel_area = (0, snd original, new_width, new_height)\<rparr>))"

subsection \<open>The drawing pass\<close>

text \<open>
  What the drawing pass does to the canvas, in order: a \<open>draw.text\<close> call with its
  position and string, the separator's \<open>draw.line\<close> with its two end points, the printed
  warning that a text line leaves the panel (with \<open>current_y\<close> and the bound
  \<open>panel_area[3]\<close>), the call that pastes the stamp, resized to a size, at a position,
  and the printed message that this call raised. The pass carries \<open>text_y\<close> and what has
  been done.
\<close>

datatype draw_op =
  DrawText "int \<times> int" pystr
| DrawLine "int \<times> int" "int \<times> int"
| Warning int int
| PasteStamp "int \<times> int" "int \<times> int"
| PasteError pystr

text \<open>
  \<open>draw.text(xy, string, fill=text_color, font=font)\<close> and
  \<open>draw.line([a, b], fill=text_color, width=1)\<close>, with
  \<open>text_color = settings.get("text_color", "#000000")\<close>: the call raises, or it is done.
\<close>

definition draw_text ::
  "env \<Rightarrow> settings \<Rightarrow> int \<times> int \<Rightarrow> pystr \<Rightarrow> draw_op list \<Rightarrow> exn + draw_op list" where
  "draw_text ev st xy string ops =
     (case draw_text_raises ev (get_or (cfg_text_color st) (py ''#000000'')) string of
        Some e \<Rightarrow> Inl e
      | None \<Rightarrow> Inr (ops @ [DrawText xy string]))"

definition draw_line ::
  "env \<Rightarrow> settings \<Rightarrow> int \<times> int \<Rightarrow> int \<times> int \<Rightarrow> draw_op list \<Rightarrow> exn + draw_op list" where
  "draw_line ev st a b ops =
     (case draw_line_raises ev (get_or (cfg_text_color st) (py ''#000000'')) of
        Some e \<Rightarrow> Inl e
      | None \<Rightarrow> Inr (ops @ [DrawLine a b]))"

text \<open>
  \<^verbatim>\<open>
  if excel_fields.get("inn", {}).get("enabled") and excel_data.get("inn"):
      offset_x, offset_y = element_offsets.get("inn", (0, 0))
      draw.text((text_x + offset_x, text_y + offset_y), f"[TIN]: {excel_data['inn']}", ...)
      text_y += line_height
  \<close>
\<close>

definition draw_field ::
  "env \<Rightarrow> settings \<Rightarrow> row_data option \<Rightarrow> pystr \<Rightarrow> pystr \<Rightarrow> int \<Rightarrow> int \<Rightarrow> int \<times> draw_op list
     \<Rightarrow> exn + int \<times> draw_op list" where
  "draw_field ev st excel_data name label text_x line_height state =
     (case field_shown st excel_data name of
        Inl e \<Rightarrow> Inl e
      | Inr shown \<Rightarrow>
          if shown
          then (case draw_text ev st
                       (text_x + fst (element_offset st name),
                        fst state + snd (element_offset st name))
                       (label @ field_value excel_data name) (snd state) of
                  Inl e \<Rightarrow> Inl e
                | Inr ops \<Rightarrow> Inr (fst state + line_height, ops))
          else Inr state)"

text \<open>
  \<^verbatim>\<open>
  for line in lines:
      draw.text((text_x, text_y), line, ...)
      text_y += line_height
  \<close>
\<close>

fun draw_lines ::
  "env \<Rightarrow> settings \<Rightarrow> pystr list \<Rightarrow> int \<Rightarrow> int \<Rightarrow> int \<times> draw_op list
     \<Rightarrow> exn + int \<times> draw_op list" where
  "draw_lines ev st [] text_x line_height state = Inr state"
| "draw_lines ev st (line # rest) text_x line_height state =
     (case draw_text ev st (text_x, fst state) line (snd state) of
        Inl e \<Rightarrow> Inl e
      | Inr ops \<Rightarrow> draw_lines ev st rest text_x line_height (fst state + line_height, ops))"

text \<open>
  \<^verbatim>\<open>
  if excel_fields.get("supplier", {}).get("enabled") and excel_data.get("supplier"):
      supplier_text = f"[Supplier]:\n{excel_data['supplier']}"
      lines = self._wrap_text(supplier_text, font, panel_width - 20)
      (draw the lines)
  \<close>
  and the same for the hyperlink. The drawing pass wraps at \<open>panel_width - 20\<close> whatever
  the position setting is.
\<close>

definition draw_wrapped ::
  "env \<Rightarrow> settings \<Rightarrow> row_data option \<Rightarrow> pystr \<Rightarrow> pystr \<Rightarrow> font \<Rightarrow> int \<Rightarrow> int \<Rightarrow> int
     \<Rightarrow> int \<times> draw_op list \<Rightarrow> exn + int \<times> draw_op list" where
  "draw_wrapped ev st excel_data name label fnt panel_width text_x line_height state =
     (case field_shown st excel_data name of
        Inl e \<Rightarrow> Inl e
      | Inr shown \<Rightarrow>
          if shown
          then draw_lines ev st
                 (wrap_text (label @ field_value excel_data name) fnt (panel_width - 20))
                 text_x line_height state
          else Inr state)"

text \<open>
  \<^verbatim>\<open>
  current_y = text_y
  for line in lines:
      if current_y + line_height > panel_area[3]:
          print(f"WARNING: ... y={current_y}, ...={panel_area[3]}")
      draw.text((text_x + offset_x, current_y + offset_y), line, ...)
      current_y += line_height
  \<close>
\<close>

fun draw_text_lines ::
  "env \<Rightarrow> settings \<Rightarrow> pystr list \<Rightarrow> int \<times> int \<Rightarrow> int \<Rightarrow> int \<Rightarrow> int \<Rightarrow> int \<Rightarrow> draw_op list
     \<Rightarrow> exn + draw_op list" where
  "draw_text_lines ev st [] off text_x line_height bound current_y ops = Inr ops"
| "draw_text_lines ev st (line # rest) off text_x line_height bound current_y ops =
     (case draw_text ev st (text_x + fst off, current_y + snd off) line
             (if current_y + line_height > bound then ops @ [Warning current_y bound] else ops) of
        Inl e \<Rightarrow> Inl e
      | Inr ops' \<Rightarrow>
          draw_text_lines ev st rest off text_x line_height bound (current_y + line_height) ops')"

text \<open>
  \<^verbatim>\<open>
  for i, text in enumerate(fixed_texts):
      if text:
          offset_x, offset_y = element_offsets.get(f"text_{i+1}", (0, 0))
          lines = self._wrap_text(text, font, panel_width - 20)
          (draw the lines from current_y = text_y, as above)
          text_y += len(lines) * line_height
  \<close>
\<close>

fun draw_fixed_texts ::
  "env \<Rightarrow> settings \<Rightarrow> font \<Rightarrow> int \<Rightarrow> int \<Rightarrow> int \<Rightarrow> int \<Rightarrow> int \<Rightarrow> pystr list
     \<Rightarrow> int \<times> draw_op list \<Rightarrow> exn + int \<times> draw_op list" where
  "draw_fixed_texts ev st fnt panel_width text_x line_height bound i [] state = Inr state"
| "draw_fixed_texts ev st fnt panel_width text_x line_height bound i (t # rest) state =
     (if t \<noteq> []
      then (case draw_text_lines ev st (wrap_text t fnt (panel_width - 20))
                   (element_offset st (py ''text_'' @ str_int (i + 1)))
                   text_x line_height bound (fst state) (snd state) of
              Inl e \<Rightarrow> Inl e
            | Inr ops \<Rightarrow>
                draw_fixed_texts ev st fnt panel_width text_x line_height bound (i + 1) rest
                  (fst state + int (length (wrap_text t fnt (panel_width - 20))) * line_height,
                   ops))
      else draw_fixed_texts ev st fnt panel_width text_x line_height bound (i + 1) rest state)"

text \<open>
  The texts of the drawing pass, from \<open>text_x = panel_area[0] + 10\<close> and
  \<open>text_y = panel_area[1] + 10\<close>: the fields, the separator, the fixed texts. Between the
  fields and the fixed texts:
  \<^verbatim>\<open>
  text_y += 10
  draw.line([(text_x, text_y), (panel_width - 10, text_y)], ...)
  text_y += 15
  \<close>
  The result is \<open>text_y\<close> after the last text, and what has been drawn.
\<close>

definition draw_texts ::
  "env \<Rightarrow> settings \<Rightarrow> row_data option \<Rightarrow> pystr list \<Rightarrow> font \<Rightarrow> int \<times> int \<times> int \<times> int
     \<Rightarrow> exn + int \<times> draw_op list" where
  "draw_texts ev st excel_data fixed_texts fnt area =
     (let panel_width = get_or (cfg_panel_width st) 300;
          line_height = get_or (cfg_font_size st) 12 + 8;
          text_x = fst area + 10;
          text_y = fst (snd area) + 10;
          bound = snd (snd (snd area))
      in
      case draw_field ev st excel_data (py ''inn'') label_inn text_x line_height (text_y, []) of
        Inl e \<Rightarrow> Inl e
      | Inr s1 \<Rightarrow>
     (case draw_field ev st excel_data (py ''kpp'') label_kpp text_x line_height s1 of
        Inl e \<Rightarrow> Inl e
      | Inr s2 \<Rightarrow>
     (case draw_wrapped ev st excel_data (py ''supplier'') label_supplier fnt panel_width text_x
             line_height s2 of
        Inl e \<Rightarrow> Inl e
      | Inr s3 \<Rightarrow>
     (case draw_wrapped ev st excel_data (py ''hyperlink'') label_link fnt panel_width text_x
             line_height s3 of
        Inl e \<Rightarrow> Inl e
      | Inr s4 \<Rightarrow>
     (case draw_line ev st (text_x, fst s4 + 10) (panel_width - 10, fst s4 + 10) (snd s4) of
        Inl e \<Rightarrow> Inl e
      | Inr ops \<Rightarrow>
          draw_fixed_texts ev st fnt panel_width text_x line_height bound 0 fixed_texts
            (fst s4 + 10 + 15, ops))))))"

text \<open>
  \<^verbatim>\<open>
  if self.stamp_image and self.settings.get("stamp_enabled", True):
      stamp_scale = self.settings.get("stamp_scale", 1.0)
      stamp_width = int(self.stamp_image.width * stamp_scale)
      stamp_height = int(self.stamp_image.height * stamp_scale)
      if stamp_width > panel_width - 20:
          ratio = (panel_width - 20) / stamp_width
          stamp_width = panel_width - 20
          stamp_height = int(stamp_height * ratio)
      stamp_resized = self.stamp_image.resize((stamp_width, stamp_height), LANCZOS)
      stamp_y = text_y + 20
      offset_x, offset_y = element_offsets.get("stamp", (0, 0))
      try:
          result.paste(stamp_resized, (text_x + int(offset_x), stamp_y + int(offset_y)),
                       stamp_resized)
      except Exception as e:
          print(...)
  \<close>
  \<open>stamp_size\<close> is the size the stamp is resized to. The offsets are integers, so
  \<open>int(offset_x)\<close> is \<open>offset_x\<close>. The inner \<open>except\<close> clause catches what \<open>paste\<close> raises
  when it is an instance of \<open>Exception\<close>, and prints it.
\<close>

definition stamp_size :: "env \<Rightarrow> settings \<Rightarrow> int \<times> int \<Rightarrow> int \<Rightarrow> exn + int \<times> int" where
  "stamp_size ev st stamp panel_width =
     (let stamp_scale = get_or (cfg_stamp_scale st) 1;
          stamp_width = py_int (float_mul ev (fst stamp) stamp_scale);
          stamp_height = py_int (float_mul ev (snd stamp) stamp_scale)
      in if stamp_width > panel_width - 20
         then (if stamp_width = 0 then Inl (ZeroDivisionError (py ''division by zero''))
               else Inr (panel_width - 20,
                         py_int (float_mul ev stamp_height
                                   (float_div ev (panel_width - 20) stamp_width))))
         else Inr (stamp_width, stamp_height))"

definition draw_stamp ::
  "env \<Rightarrow> settings \<Rightarrow> (int \<times> int) option \<Rightarrow> int \<Rightarrow> int \<Rightarrow> int \<times> draw_op list
     \<Rightarrow> exn + draw_op list" where
  "draw_stamp ev st stamp_image panel_width text_x state =
     (case stamp_image of
        None \<Rightarrow> Inr (snd state)
      | Some stamp \<Rightarrow>
          if \<not> get_or (cfg_stamp_enabled st) True then Inr (snd state)
          else
            case stamp_size ev st stamp panel_width of
              Inl e \<Rightarrow> Inl e
            | Inr resized \<Rightarrow>
                (case image_resize ev resized of
                   Some e \<Rightarrow> Inl e
                 | None \<Rightarrow>
                     let stamp_y = fst state + 20;
                         xy = (text_x + fst (element_offset st (py ''stamp'')),
                               stamp_y + snd (element_offset st (py ''stamp'')))
                     in case stamp_paste ev resized xy of
                          None \<Rightarrow> Inr (snd state @ [PasteStamp resized xy])
                        | Some e \<Rightarrow>
                            if is_Exception e
                            then Inr (snd state @ [PasteStamp resized xy, PasteError (exn_str e)])
                            else Inl e))"

text \<open>The whole drawing pass: the texts, then the stamp.\<close>

definition draw_panel ::
  "env \<Rightarrow> settings \<Rightarrow> (int \<times> int) option \<Rightarrow> row_data option \<Rightarrow> pystr list \<Rightarrow> font
     \<Rightarrow> int \<times> int \<times> int \<times> int \<Rightarrow> exn + draw_op list" where
  "draw_panel ev st stamp_image excel_data fixed_texts fnt area =
     (case draw_texts ev st excel_data fixed_texts fnt area of
        Inl e \<Rightarrow> Inl e
      | Inr state \<Rightarrow>
          draw_stamp ev st stamp_image (get_or (cfg_panel_width st) 300) (fst area + 10) state)"


subsection \<open>Saving, and the whole of process\_image\<close>

text \<open>
  \<^verbatim>\<open>
  output_format = self.settings.get("format", "png").lower()
  ...
  if output_format == 'pdf': self._save_as_pdf(result, ...)
  elif output_format in ('jpg', 'jpeg'): result.save(..., 'JPEG', quality=95)
  else: result.save(..., 'PNG')
  \<close>
  \<open>str.lower\<close> is modelled on the ASCII letters, as \<open>str.upper\<close> above.
\<close>

definition lower_char :: "nat \<Rightarrow> nat" where
  "lower_char c = (if 65 \<le> c \<and> c \<le> 90 then c + 32 else c)"

definition py_lower :: "pystr \<Rightarrow> pystr" where
  "py_lower s = map lower_char s"

definition output_kind :: "settings \<Rightarrow> save_kind" where
  "output_kind st =
     (let output_format = py_lower (get_or (cfg_format st) (py ''png''))
      in if output_format = py ''pdf'' then PDF
         else if output_format = py ''jpg'' \<or> output_format = py ''jpeg'' then JPEG
         else PNG)"

text \<open>
  The body of the \<open>try\<close> block of \<open>process_image\<close>: the canvas and what was drawn on
  it, or the exception raised on the way.
\<close>

definition compose ::
  "env \<Rightarrow> settings \<Rightarrow> (int \<times> int) option \<Rightarrow> pystr \<Rightarrow> row_data option \<Rightarrow> pystr list \<Rightarrow> pystr
     \<Rightarrow> exn + canvas \<times> draw_op list" where
  "compose ev st stamp_image image_path excel_data fixed_texts output_path =
     (case image_open ev image_path of
        Inl e \<Rightarrow> Inl e
      | Inr original \<Rightarrow>
     (case get_font ev (get_or (cfg_font_size st) 12) of
        Inl e \<Rightarrow> Inl e
      | Inr fnt \<Rightarrow>
     (case make_canvas ev st stamp_image excel_data fixed_texts fnt original of
        Inl e \<Rightarrow> Inl e
      | Inr cv \<Rightarrow>
     (case draw_panel ev st stamp_image excel_data fixed_texts fnt (panel_area cv) of
        Inl e \<Rightarrow> Inl e
      | Inr ops \<Rightarrow>
     (case image_save ev output_path (output_kind st) of
        Some e \<Rightarrow> Inl e
      | None \<Rightarrow> Inr (cv, ops))))))"

text \<open>
  \<^verbatim>\<open>
  def process_image(self, image_path, excel_data, fixed_texts, output_path):
      try:
          (the body)
          return True, "OK"
      except Exception as e:
          return False, f"[Processing error]: {str(e)}"
  \<close>
\<close>

definition msg_processing_error :: pystr where
  "msg_processing_error =
     [1054, 1096, 1080, 1073, 1082, 1072, 32, 1086, 1073, 1088, 1072, 1073, 1086, 1090, 1082,
      1080, 58, 32]"

definition process_image ::
  "env \<Rightarrow> settings \<Rightarrow> (int \<times> int) option \<Rightarrow> pystr \<Rightarrow> row_data option \<Rightarrow> pystr list \<Rightarrow> pystr
     \<Rightarrow> exn + bool \<times> pystr" where
  "process_image ev st stamp_image image_path excel_data fixed_texts output_path =
     (case compose ev st stamp_image image_path excel_data fixed_texts output_path of
        Inr done \<Rightarrow> Inr (True, py ''OK'')
      | Inl e \<Rightarrow>
          if is_Exception e then Inr (False, msg_processing_error @ exn_str e) else Inl e)"


subsection \<open>A sample environment\<close>

text \<open>
  For concrete evaluations: every image is 1000 by 600 except the missing file, the
  font is 10 pixels per code point, the only colours known are \<open>#FFFFFF\<close> and \<open>#000000\<close>,
  the other library calls succeed, and the float operations are exact.
\<close>

definition unknown_color :: "pystr \<Rightarrow> exn option" where
  "unknown_color color =
     (if color = py ''#FFFFFF'' \<or> color = py ''#000000'' then None
      else Some (ValueError (py ''unknown color specifier: '' @ [39] @ color @ [39])))"

definition sample_env :: env where
  "sample_env =
     \<lparr>image_open = (\<lambda>path. if path = py ''missing.png''
                             then Inl (FileNotFoundError
                                         (py ''[Errno 2] No such file or directory: '' @
                                          [39] @ py ''missing.png'' @ [39]))
                             else Inr (1000, 600)),
      get_font = (\<lambda>sz. Inr (mono_font 10 sz)),
      image_new = (\<lambda>sz color. unknown_color color),
      draw_text_raises = (\<lambda>color string. unknown_color color),
      draw_line_raises = unknown_color,
      image_resize = (\<lambda>sz. None),
      stamp_paste = (\<lambda>sz xy. None),
      image_save = (\<lambda>path kind. None),
      float_mul = (\<lambda>n x. of_int n * x),
      float_div = (\<lambda>a b. of_int a / of_int b)\<rparr>"

text \<open>
  Settings as the main window builds them, with the narrowest panel it offers (100),
  font size 12, no spreadsheet field enabled, and the position given.
\<close>

definition sample_settings :: "pystr \<Rightarrow> settings" where
  "sample_settings pos =
     \<lparr>cfg_panel_width = Some 100, cfg_position = Some pos,
      cfg_background_color = Some (py ''#FFFFFF''), cfg_font_size = Some 12,
      cfg_text_color = Some (py ''#000000''), cfg_format = Some (py ''png''),
      cfg_excel_fields = Some [(py ''inn'', False), (py ''kpp'', False),
                               (py ''supplier'', False), (py ''hyperlink'', False)],
      cfg_stamp_enabled = Some True, cfg_stamp_scale = Some (3 / 2),
      cfg_element_offsets = None\<rparr>"

definition sample_words :: pystr where
  "sample_words = py ''aaaaa bbbbb ccccc''"



section \<open>worker.py: ProcessingWorker\<close>

subsection \<open>Counters and signals\<close>

text \<open>
  A task and a result, as the dataclasses \<open>ProcessingTask\<close> and \<open>ProcessingResult\<close>
  (the processing time, a clock reading, is left out: nothing below reads it).
\<close>

record processing_task =
  task_image_path :: pystr
  task_output_path :: pystr
  task_excel_data :: "row_data option"
  task_fixed_texts :: "pystr list"

record processing_result =
  res_filename :: pystr
  res_success :: bool
  res_message :: pystr

text \<open>
  The \<open>percent\<close> entry of a statistics dictionary is the integer \<open>0\<close> or \<open>100\<close>, or the
  float \<open>processed / total * 100\<close>; the float is carried by the two integers it is
  computed from, so nothing is assumed about rounding.
\<close>

datatype pynum = IntNum int | PercentFloat int int

text \<open>
  The statistics dictionary, without the entries computed from the clock
  (\<open>elapsed\<close>, \<open>speed\<close>, \<open>remaining\<close>).
\<close>

record statistics =
  stat_processed :: int
  stat_total :: int
  stat_success :: int
  stat_failed :: int
  stat_skipped :: int
  stat_percent :: pynum

text \<open>The signals of \<open>WorkerSignals\<close>, with what each emission carries.\<close>

datatype signal =
  Started
| Finished
| Error pystr pystr
| Progress int int pystr
| FileProcessed pystr bool pystr
| Statistics statistics

text \<open>
  The counters of a \<open>ProcessingWorker\<close> (\<open>_processed_count\<close>, \<open>_success_count\<close>,
  \<open>_failed_count\<close>, \<open>_skipped_count\<close>, \<open>_total_files\<close>) and the signals it has emitted,
  in order.
\<close>

record worker =
  wk_processed_count :: int
  wk_success_count :: int
  wk_failed_count :: int
  wk_skipped_count :: int
  wk_total_files :: int
  wk_signals :: "signal list"

text \<open>
  \<open>__init__\<close>: the counters start at 0 and \<open>_total_files = len(tasks)\<close>.
\<close>

definition new_worker :: "processing_task list \<Rightarrow> worker" where
  "new_worker tasks =
     \<lparr>wk_processed_count = 0, wk_success_count = 0, wk_failed_count = 0,
      wk_skipped_count = 0, wk_total_files = int (length tasks), wk_signals = []\<rparr>"

definition emit :: "signal \<Rightarrow> worker \<Rightarrow> worker" where
  "emit sig w = w\<lparr>wk_signals := wk_signals w @ [sig]\<rparr>"

text \<open>
  \<^verbatim>\<open>
  def _emit_statistics(self):
      ...
      stats = {
          "processed": self._processed_count, "total": self._total_files,
          "success": self._success_count, "failed": self._failed_count,
          "skipped": self._skipped_count, ...
          "percent": (self._processed_count / self._total_files * 100)
                     if self._total_files > 0 else 0
      }
      self.signals.statistics.emit(stats)
  \<close>
\<close>

definition emit_statistics :: "worker \<Rightarrow> worker" where
  "emit_statistics w =
     emit (Statistics
       \<lparr>stat_processed = wk_processed_count w, stat_total = wk_total_files w,
        stat_success = wk_success_count w, stat_failed = wk_failed_count w,
        stat_skipped = wk_skipped_count w,
        stat_percent = (if wk_total_files w > 0
                        then PercentFloat (wk_processed_count w) (wk_total_files w)
                        else IntNum 0)\<rparr>) w"

text \<open>
  \<^verbatim>\<open>
  def _emit_final_statistics(self):
      ...
      stats = {
          (as above)
          "percent": 100 if self._processed_count == self._total_files
                     else (self._processed_count / self._total_files * 100)
      }
      self.signals.statistics.emit(stats)
  \<close>
  The division raises \<open>ZeroDivisionError\<close> when \<open>_total_files\<close> is 0.
\<close>

definition emit_final_statistics :: "worker \<Rightarrow> exn + worker" where
  "emit_final_statistics w =
     (if wk_processed_count w = wk_total_files w
      then Inr (emit (Statistics
             \<lparr>stat_processed = wk_processed_count w, stat_total = wk_total_files w,
              stat_success = wk_success_count w, stat_failed = wk_failed_count w,
              stat_skipped = wk_skipped_count w, stat_percent = IntNum 100\<rparr>) w)
      else if wk_total_files w = 0
      then Inl (ZeroDivisionError (py ''division by zero''))
      else Inr (emit (Statistics
             \<lparr>stat_processed = wk_processed_count w, stat_total = wk_total_files w,
              stat_success = wk_success_count w, stat_failed = wk_failed_count w,
              stat_skipped = wk_skipped_count w,
              stat_percent = PercentFloat (wk_processed_count w) (wk_total_files w)\<rparr>) w))"

text \<open>
  \<^verbatim>\<open>
  def _handle_result(self, result: ProcessingResult):
      with self._lock:
          self._processed_count += 1
          if result.success:
              self._success_count += 1
          else:
              self._failed_count += 1
      self.signals.file_processed.emit(result.filename, result.success, result.message)
      self.signals.progress.emit(self._processed_count, self._total_files, result.filename)
      if self._processed_count % 10 == 0:
          self._emit_statistics()
  \<close>
\<close>

definition handle_result :: "processing_result \<Rightarrow> worker \<Rightarrow> worker" where
  "handle_result result w =
     (let w1 = w\<lparr>wk_processed_count := wk_processed_count w + 1\<rparr>;
          w2 = (if res_success result
                then w1\<lparr>wk_success_count := wk_success_count w1 + 1\<rparr>
                else w1\<lparr>wk_failed_count := wk_failed_count w1 + 1\<rparr>);
          w3 = emit (FileProcessed (res_filename result) (res_success result)
                       (res_message result)) w2;
          w4 = emit (Progress (wk_processed_count w3) (wk_total_files w3)
                       (res_filename result)) w3
      in if wk_processed_count w4 mod 10 = 0 then emit_statistics w4 else w4)"



fun statistics_signals :: "signal list \<Rightarrow> statistics list" where
  "statistics_signals [] = []"
| "statistics_signals (Statistics stats # sigs) = stats # statistics_signals sigs"
| "statistics_signals (other # sigs) = statistics_signals sigs"

text \<open>
  The \<open>percent\<close> entry as \<open>_emit_statistics\<close> computes it, and as
  \<open>_emit_final_statistics\<close> does.
\<close>

definition periodic_percent :: "statistics \<Rightarrow> bool" where
  "periodic_percent st \<longleftrightarrow>
     stat_percent st = (if stat_total st > 0
                        then PercentFloat (stat_processed st) (stat_total st)
                        else IntNum 0)"


subsection \<open>The run thread, the GUI thread and the pool\<close>

text \<open>
  \<open>ProcessingWorker.run\<close> is executed by one thread while the GUI thread calls
  \<open>pause\<close>, \<open>resume\<close> and \<open>cancel\<close> and the pool's threads complete the submitted
  tasks. The threads interleave between statements, so the run is a sequence of steps,
  each taken by one of them. The place of the run thread in \<open>run\<close>:
  \<^verbatim>\<open>
  for i, task in enumerate(self.tasks):
      if self._is_cancelled.is_set():        # SubmitCheck
          break
      self._is_paused.wait()                 # SubmitWait
      future = executor.submit(...)          # SubmitDo
      futures[future] = task
  for future in as_completed(futures):       # ResultNext
      if self._is_cancelled.is_set():        # ResultCheck
          break
      self._is_paused.wait()                 # ResultWait
      task = futures[future]                 # ResultHandle
      (self._handle_result(result), once, on either path of the try)
      ...
  finally:
      self._emit_final_statistics()          # Finalize
      self.signals.finished.emit()
  \<close>
  \<open>Done\<close> is the end of \<open>run\<close>, \<open>Crashed\<close> an exception leaving it.
\<close>

datatype pc =
  SubmitCheck | SubmitWait | SubmitDo
| ResultNext | ResultCheck | ResultWait | ResultHandle
| Finalize | Done | Crashed

text \<open>
  The state: the worker's counters and signals; the two events (\<open>_is_cancelled\<close>, and
  \<open>_is_paused\<close>, which is set when the worker is \<^emph>\<open>not\<close> paused); the place of the run
  thread; the tasks the submission loop has not reached, those it has submitted, those
  of them still running in the pool, those completed and not yet yielded by
  \<open>as_completed\<close>, the one being handled, and those handled; and whether the GUI thread
  is between the two statements of \<open>cancel\<close>.
\<close>

record run_state =
  rs_worker :: worker
  rs_cancelled :: bool
  rs_pause_set :: bool
  rs_pc :: pc
  rs_todo :: "processing_task list"
  rs_submitted :: "processing_task list"
  rs_running :: "processing_task list"
  rs_completed :: "processing_task list"
  rs_current :: "processing_task option"
  rs_handled :: "processing_task list"
  rs_in_cancel :: bool

text \<open>
  The state when the run thread reaches the first loop: \<open>__init__\<close> has set
  \<open>_is_paused\<close> and \<open>run\<close> has emitted \<open>started\<close>.
\<close>

definition init_run :: "processing_task list \<Rightarrow> run_state" where
  "init_run tasks =
     \<lparr>rs_worker = emit Started (new_worker tasks), rs_cancelled = False, rs_pause_set = True,
      rs_pc = SubmitCheck, rs_todo = tasks, rs_submitted = [], rs_running = [],
      rs_completed = [], rs_current = None, rs_handled = [], rs_in_cancel = False\<rparr>"

text \<open>
  A step of the run thread. \<open>Event.wait\<close> returns only when the event is set, and
  \<open>as_completed\<close> yields only when a future is completed: until then the thread stays
  where it is. \<open>outcome task\<close> is the result \<open>_handle_result\<close> is called with for the
  task: the one \<open>_process_single_file\<close> returned, or the failure built in the
  \<open>except\<close> branch.
\<close>

definition run_thread :: "(processing_task \<Rightarrow> processing_result) \<Rightarrow> run_state \<Rightarrow> run_state" where
  "run_thread outcome s =
     (case rs_pc s of
        SubmitCheck \<Rightarrow>
          (case rs_todo s of
             [] \<Rightarrow> s\<lparr>rs_pc := ResultNext\<rparr>
           | task # rest \<Rightarrow>
               if rs_cancelled s then s\<lparr>rs_pc := ResultNext\<rparr> else s\<lparr>rs_pc := SubmitWait\<rparr>)
      | SubmitWait \<Rightarrow> if rs_pause_set s then s\<lparr>rs_pc := SubmitDo\<rparr> else s
      | SubmitDo \<Rightarrow>
          (case rs_todo s of
             [] \<Rightarrow> s\<lparr>rs_pc := ResultNext\<rparr>
           | task # rest \<Rightarrow>
               s\<lparr>rs_pc := SubmitCheck, rs_todo := rest,
                 rs_submitted := rs_submitted s @ [task],
                 rs_running := rs_running s @ [task]\<rparr>)
      | ResultNext \<Rightarrow>
          (case rs_completed s of
             task # rest \<Rightarrow>
               s\<lparr>rs_pc := ResultCheck, rs_completed := rest, rs_current := Some task\<rparr>
           | [] \<Rightarrow> if rs_running s = [] then s\<lparr>rs_pc := Finalize\<rparr> else s)
      | ResultCheck \<Rightarrow>
          if rs_cancelled s then s\<lparr>rs_pc := Finalize\<rparr> else s\<lparr>rs_pc := ResultWait\<rparr>
      | ResultWait \<Rightarrow> if rs_pause_set s then s\<lparr>rs_pc := ResultHandle\<rparr> else s
      | ResultHandle \<Rightarrow>
          (case rs_current s of
             None \<Rightarrow> s\<lparr>rs_pc := ResultNext\<rparr>
           | Some task \<Rightarrow>
               s\<lparr>rs_pc := ResultNext, rs_current := None,
                 rs_handled := rs_handled s @ [task],
                 rs_worker := handle_result (outcome task) (rs_worker s)\<rparr>)
      | Finalize \<Rightarrow>
          (case emit_final_statistics (rs_worker s) of
             Inl e \<Rightarrow> s\<lparr>rs_pc := Crashed\<rparr>
           | Inr w \<Rightarrow> s\<lparr>rs_pc := Done, rs_worker := emit Finished w\<rparr>)
      | Done \<Rightarrow> s
      | Crashed \<Rightarrow> s)"

text \<open>
  The steps of the other threads.
  \<^verbatim>\<open>
  def pause(self):  self._is_paused.clear()
  def resume(self): self._is_paused.set()
  def cancel(self):
      self._is_cancelled.set()       # CancelBegin
      self._is_paused.set()          # CancelEnd
  \<close>
  The GUI thread makes one call at a time, so \<open>pause\<close> and \<open>resume\<close> do not run between
  the two statements of \<open>cancel\<close>. \<open>PoolComplete i\<close> is a pool thread completing the
  \<open>i\<close>-th of the running tasks. A step that is not possible in a state leaves the state
  as it is.
\<close>

datatype action = RunThread | Pause | Resume | CancelBegin | CancelEnd | PoolComplete nat

definition step :: "(processing_task \<Rightarrow> processing_result) \<Rightarrow> run_state \<Rightarrow> action \<Rightarrow> run_state" where
  "step outcome s a =
     (case a of
        RunThread \<Rightarrow> run_thread outcome s
      | Pause \<Rightarrow> if rs_in_cancel s then s else s\<lparr>rs_pause_set := False\<rparr>
      | Resume \<Rightarrow> if rs_in_cancel s then s else s\<lparr>rs_pause_set := True\<rparr>
      | CancelBegin \<Rightarrow> if rs_in_cancel s then s else s\<lparr>rs_cancelled := True, rs_in_cancel := True\<rparr>
      | CancelEnd \<Rightarrow> if rs_in_cancel s then s\<lparr>rs_pause_set := True, rs_in_cancel := False\<rparr> else s
      | PoolComplete i \<Rightarrow>
          if i < length (rs_running s)
          then s\<lparr>rs_running := take i (rs_running s) @ drop (Suc i) (rs_running s),
                 rs_completed := rs_completed s @ [rs_running s ! i]\<rparr>
          else s)"

definition exec :: "(processing_task \<Rightarrow> processing_result) \<Rightarrow> run_state \<Rightarrow> action list \<Rightarrow> run_state" where
  "exec outcome s schedule = foldl (step outcome) s schedule"

text \<open>
  How many tasks the submission loop can still submit, and how many results the
  result loop can still handle, once the cancellation event is set: the one of the pass
  that is already beyond its cancellation check.
\<close>

definition may_submit :: "run_state \<Rightarrow> nat" where
  "may_submit s = (if rs_pc s = SubmitWait \<or> rs_pc s = SubmitDo then 1 else 0)"

definition may_handle :: "run_state \<Rightarrow> nat" where
  "may_handle s = (if rs_pc s = ResultWait \<or> rs_pc s = ResultHandle then 1 else 0)"

text \<open>Two tasks and an outcome, for concrete runs.\<close>

definition sample_task :: "pystr \<Rightarrow> processing_task" where
  "sample_task name =
     \<lparr>task_image_path = name, task_output_path = py ''out/'' @ name,
      task_excel_data = Some sample_row, task_fixed_texts = [sample_words]\<rparr>"

definition sample_outcome :: "processing_task \<Rightarrow> processing_result" where
  "sample_outcome task =
     \<lparr>res_filename = task_image_path task, res_success = True, res_message = py ''OK''\<rparr>"






text \<open>
  A run of two tasks in which the user pauses, the run thread passes the cancellation
  check and blocks on the pause event, and the user then cancels.
\<close>

definition two_tasks :: "processing_task list" where
  "two_tasks = [sample_task (py ''a.png''), sample_task (py ''b.png'')]"

definition paused_then_cancelled :: "action list" where
  "paused_then_cancelled = [Pause, RunThread, RunThread, CancelBegin, CancelEnd]"

section \<open>Literals\<close>

lemma py_inject [simp]: "py a = py b \<longleftrightarrow> a = b"
  unfolding py_def by (simp add: inj_map_eq_map inj_on_def)

lemma py_Nil [simp]: "py [] = []" "py a = [] \<longleftrightarrow> a = []" "[] = py a \<longleftrightarrow> a = []"
  unfolding py_def by simp_all

lemma py_length [simp]: "length (py a) = length a"
  unfolding py_def by simp

section \<open>Column letters: proofs\<close>

lemma get_column_index_loop_append:
  "get_column_index_loop r (xs @ ys) = get_column_index_loop (get_column_index_loop r xs) ys"
  by (induction xs arbitrary: r) simp_all

lemma get_column_index_loop_letter:
  "0 \<le> n \<Longrightarrow>
   get_column_index_loop 0 (get_column_letter_loop n res) = get_column_index_loop (n + 1) res"
proof (induction n res rule: get_column_letter_loop.induct)
  case (1 index result)
  let ?c = "nat (index mod 26 + 65)"
  let ?m = "index div 26 - 1"
  have unfold: "get_column_letter_loop index result = get_column_letter_loop ?m (?c # result)"
    using "1.prems" by (subst get_column_letter_loop.simps) simp
  have digit: "int ?c - 65 + 1 = index mod 26 + 1"
    by simp
  show ?case
  proof (cases "0 \<le> ?m")
    case True
    have "get_column_index_loop 0 (get_column_letter_loop ?m (?c # result))
          = get_column_index_loop (?m + 1) (?c # result)"
      using "1.IH" [OF "1.prems" True] .
    also have "\<dots> = get_column_index_loop ((?m + 1) * 26 + (index mod 26 + 1)) result"
      by (simp only: get_column_index_loop.simps digit)
    also have "(?m + 1) * 26 + (index mod 26 + 1) = index + 1"
      by simp
    finally show ?thesis
      by (simp only: unfold)
  next
    case False
    then have small: "index div 26 = 0"
      using "1.prems" by (simp add: pos_imp_zdiv_nonneg_iff)
    have stop: "get_column_letter_loop ?m (?c # result) = ?c # result"
      using False by (subst get_column_letter_loop.simps) simp
    have "index mod 26 = index"
      using small by (metis add.left_neutral mult_zero_right mult_div_mod_eq)
    then have "get_column_index_loop 0 (?c # result) = get_column_index_loop (index + 1) result"
      by (simp only: get_column_index_loop.simps digit) simp
    then show ?thesis
      by (simp only: unfold stop)
  qed
qed

lemma get_column_letter_loop_upper:
  "list_all is_upper_letter res \<Longrightarrow> list_all is_upper_letter (get_column_letter_loop n res)"
proof (induction n res rule: get_column_letter_loop.induct)
  case (1 index result)
  show ?case
  proof (cases "0 \<le> index")
    case True
    have "0 \<le> index mod 26" "index mod 26 < 26"
      by simp_all
    then have "is_upper_letter (nat (index mod 26 + 65))"
      unfolding is_upper_letter_def by linarith
    then have "list_all is_upper_letter (nat (index mod 26 + 65) # result)"
      using "1.prems" by simp
    from "1.IH" [OF True this] show ?thesis
      using True by (subst get_column_letter_loop.simps) simp
  next
    case False
    then show ?thesis
      using "1.prems" by (subst get_column_letter_loop.simps) simp
  qed
qed

lemma get_column_letter_loop_length:
  "length res \<le> length (get_column_letter_loop n res)"
proof (induction n res rule: get_column_letter_loop.induct)
  case (1 index result)
  show ?case
  proof (cases "0 \<le> index")
    case True
    from "1.IH" [OF True] show ?thesis
      using True by (subst get_column_letter_loop.simps) simp
  next
    case False
    then show ?thesis
      by (subst get_column_letter_loop.simps) simp
  qed
qed

lemma get_column_letter_nonempty:
  assumes "0 \<le> n"
  shows "get_column_letter n \<noteq> []"
proof -
  have "get_column_letter n = get_column_letter_loop (n div 26 - 1) [nat (n mod 26 + 65)]"
    unfolding get_column_letter_def using assms
    by (subst get_column_letter_loop.simps) simp
  moreover have "length [nat (n mod 26 + 65)]
                 \<le> length (get_column_letter_loop (n div 26 - 1) [nat (n mod 26 + 65)])"
    by (rule get_column_letter_loop_length)
  ultimately show ?thesis
    by auto
qed

lemma py_upper_upper_letters:
  "list_all is_upper_letter s \<Longrightarrow> py_upper s = s"
  unfolding py_upper_def
  by (induction s) (simp_all add: upper_char_def is_upper_letter_def)

text \<open>
  Claim C10. For every index \<open>n \<ge> 0\<close>, converting the index to its column letters and
  back gives \<open>n\<close> again, and the letters are a non-empty string of the upper-case
  letters A to Z (code points 65 to 90).
\<close>

theorem column_letter_index_roundtrip:
  "0 \<le> n \<Longrightarrow>
   get_column_index (get_column_letter n) = n \<and>
   get_column_letter n \<noteq> [] \<and>
   list_all is_upper_letter (get_column_letter n)"
proof -
  assume n: "0 \<le> n"
  have up: "list_all is_upper_letter (get_column_letter n)"
    unfolding get_column_letter_def by (rule get_column_letter_loop_upper) simp
  have "get_column_index_loop 0 (get_column_letter n) = n + 1"
    unfolding get_column_letter_def
    using get_column_index_loop_letter [OF n, of "[]"] by simp
  then have "get_column_index (get_column_letter n) = n"
    unfolding get_column_index_def by (simp add: py_upper_upper_letters [OF up])
  with up get_column_letter_nonempty [OF n] show ?thesis
    by simp
qed

lemma get_column_letter_26: "get_column_letter 26 = py ''AA''"
  unfolding get_column_letter_def
  by (simp add: get_column_letter_loop.simps py_def)

theorem column_letter_index_roundtrip_witness:
  "(0::int) \<le> 26 \<and> get_column_letter 26 = py ''AA'' \<and> get_column_index (py ''AA'') = 26 \<and>
   get_column_letter 0 = py ''A'' \<and> get_column_letter 25 = py ''Z''"
proof -
  have h: "(0::int) \<le> 26" by simp
  have "get_column_index (get_column_letter 26) = 26"
    using column_letter_index_roundtrip [OF h] by simp
  moreover have "get_column_letter 0 = py ''A''" "get_column_letter 25 = py ''Z''"
    unfolding get_column_letter_def by (simp_all add: get_column_letter_loop.simps py_def)
  ultimately show ?thesis
    by (simp add: get_column_letter_26)
qed

section \<open>Checkpoint: proofs\<close>

lemma get_list_empty_data:
  "data_is_empty data \<Longrightarrow> get_list (all_files data) = []"
  by (simp add: data_is_empty_def get_list_def)

lemma get_pending_files_filter:
  "get_pending_files data =
     filter (\<lambda>f. f \<notin> set (get_list (processed_files data)) \<and>
                 f \<notin> entry_file ` set (get_list (failed_files data)))
            (get_list (all_files data))"
  by (simp add: get_pending_files_def Let_def get_list_empty_data)

lemma mark_processed_fields:
  "get_list (processed_files (mark_processed f data)) = get_list (processed_files data) @ [f]"
  "all_files (mark_processed f data) = all_files data"
  "failed_files (mark_processed f data) = failed_files data"
  by (simp_all add: mark_processed_def Let_def get_list_def)

lemma mark_failed_fields:
  "processed_files (mark_failed f e t data) = processed_files data"
  "all_files (mark_failed f e t data) = all_files data"
  "entry_file ` set (get_list (failed_files (mark_failed f e t data)))
     = insert f (entry_file ` set (get_list (failed_files data)))"
  by (simp_all add: mark_failed_def Let_def get_list_def)

lemma apply_mark_processed_mono:
  "set (get_list (processed_files data)) \<subseteq> set (get_list (processed_files (apply_mark data m)))"
  by (cases m) (auto simp: mark_processed_fields mark_failed_fields)

lemma apply_marks_processed_mono:
  "set (get_list (processed_files data)) \<subseteq> set (get_list (processed_files (apply_marks data ms)))"
  unfolding apply_marks_def
proof (induction ms arbitrary: data)
  case Nil
  show ?case by simp
next
  case (Cons m ms)
  have "set (get_list (processed_files data))
        \<subseteq> set (get_list (processed_files (apply_mark data m)))"
    by (rule apply_mark_processed_mono)
  also have "\<dots> \<subseteq> set (get_list (processed_files (foldl apply_mark (apply_mark data m) ms)))"
    by (rule Cons.IH)
  finally show ?case by simp
qed

text \<open>
  Claim C5. \<open>get_pending_files\<close> returns exactly the elements of \<open>all_files\<close>, in their
  order, that are neither in \<open>processed_files\<close> nor the \<open>file\<close> of an entry of
  \<open>failed_files\<close>; a file passed to \<open>mark_processed\<close> is in no later result, whatever
  marking calls follow; and on the empty state the result is the empty list.
\<close>

theorem get_pending_files_exact:
  "get_pending_files data =
     filter (\<lambda>f. f \<notin> set (get_list (processed_files data)) \<and>
                 f \<notin> entry_file ` set (get_list (failed_files data)))
            (get_list (all_files data)) \<and>
   subseq (get_pending_files data) (get_list (all_files data)) \<and>
   f \<notin> set (get_pending_files (apply_marks (mark_processed f data) ms)) \<and>
   get_pending_files empty_data = []"
proof -
  have "f \<in> set (get_list (processed_files (mark_processed f data)))"
    by (simp add: mark_processed_fields)
  then have "f \<in> set (get_list (processed_files (apply_marks (mark_processed f data) ms)))"
    using apply_marks_processed_mono by blast
  then have "f \<notin> set (get_pending_files (apply_marks (mark_processed f data) ms))"
    by (simp add: get_pending_files_filter)
  moreover have "subseq (get_pending_files data) (get_list (all_files data))"
    by (simp add: get_pending_files_filter)
  moreover have "get_pending_files empty_data = []"
    by (simp add: get_pending_files_def data_is_empty_def empty_data_def)
  ultimately show ?thesis
    using get_pending_files_filter by blast
qed

section \<open>String operations: proofs\<close>

lemma split_scan_space_append:
  "is_space sp \<Longrightarrow> split_scan word (a @ sp # b) = split_scan word a @ split_scan [] b"
  by (induction a arbitrary: word) simp_all

lemma split_scan_word:
  "list_all (\<lambda>c. \<not> is_space c) w \<Longrightarrow> split_scan word w = (if word @ w = [] then [] else [word @ w])"
  by (induction w arbitrary: word) simp_all

lemma py_split_word: "is_word w \<Longrightarrow> py_split w = [w]"
  unfolding py_split_def is_word_def by (simp add: split_scan_word)

lemma split_scan_words:
  "list_all (\<lambda>c. \<not> is_space c) word \<Longrightarrow> list_all is_word (split_scan word s)"
  by (induction s arbitrary: word) (simp_all add: is_word_def)

lemma py_split_words: "list_all is_word (py_split s)"
  unfolding py_split_def by (rule split_scan_words) simp

lemma is_space_SP: "is_space SP"
  by (simp add: is_space_def SP_def)

lemma py_split_join: "py_split (a @ [SP] @ b) = py_split a @ py_split b"
  unfolding py_split_def using split_scan_space_append [OF is_space_SP] by simp

lemma split_sep_scan_no_sep:
  "sep \<notin> set s \<Longrightarrow> split_sep_scan sep piece s = [piece @ s]"
  by (induction s arbitrary: piece) simp_all

lemma split_sep_scan_pieces:
  "sep \<notin> set piece \<Longrightarrow> \<forall>p \<in> set (split_sep_scan sep piece s). sep \<notin> set p"
proof (induction s arbitrary: piece)
  case Nil
  then show ?case by simp
next
  case (Cons c s)
  show ?case
  proof (cases "c = sep")
    case True
    then show ?thesis
      using Cons.prems Cons.IH [of "[]"] by simp
  next
    case False
    then show ?thesis
      using Cons.prems Cons.IH [of "piece @ [c]"] by simp
  qed
qed

lemma py_split_sep_pieces: "p \<in> set (py_split_sep sep s) \<Longrightarrow> sep \<notin> set p"
  unfolding py_split_sep_def using split_sep_scan_pieces [of sep "[]" s] by simp

lemma py_split_sep_single: "sep \<notin> set p \<Longrightarrow> py_split_sep sep p = [p]"
  unfolding py_split_sep_def by (simp add: split_sep_scan_no_sep)

section \<open>Text wrapping: proofs\<close>

lemma wrap_words_lines:
  "wrap_words font mw lines cur ws =
     (lines @ fst (wrap_words font mw [] cur ws), snd (wrap_words font mw [] cur ws))"
proof (induction ws arbitrary: lines cur)
  case Nil
  show ?case by simp
next
  case (Cons w ws)
  show ?case
  proof (cases "line_width font (cur @ [SP] @ w) \<le> mw")
    case True
    then show ?thesis
      using Cons.IH [of lines "cur @ [SP] @ w"] by (simp add: Let_def)
  next
    case False
    then show ?thesis
      using Cons.IH [of "lines @ [cur]" w] Cons.IH [of "[cur]" w] by (simp add: Let_def)
  qed
qed

text \<open>The lines one paragraph contributes.\<close>

lemma wrap_paragraphs_lines:
  "wrap_paragraphs font mw lines ps = lines @ wrap_paragraphs font mw [] ps"
proof (induction ps arbitrary: lines)
  case Nil
  show ?case by simp
next
  case (Cons p ps)
  show ?case
  proof (cases "py_split p")
    case Nil
    then show ?thesis
      using Cons.IH [of "lines @ [[]]"] Cons.IH [of "[[]]"] by simp
  next
    case (Cons first others)
    obtain ls cur where w0: "wrap_words font mw [] first others = (ls, cur)"
      by (cases "wrap_words font mw [] first others")
    have w1: "wrap_words font mw lines first others = (lines @ ls, cur)"
      using wrap_words_lines [of font mw lines first others] w0 by simp
    show ?thesis
      using Cons w0 w1 Cons.IH [of "lines @ ls @ [cur]"] Cons.IH [of "ls @ [cur]"]
      by simp
  qed
qed

lemma wrap_paragraphs_Cons:
  "wrap_paragraphs font mw [] (p # ps) = wrap_paragraphs font mw [] [p] @ wrap_paragraphs font mw [] ps"
proof (cases "py_split p")
  case Nil
  then show ?thesis
    using wrap_paragraphs_lines [of font mw "[[]]" ps] by simp
next
  case (Cons first others)
  obtain ls cur where w0: "wrap_words font mw [] first others = (ls, cur)"
    by (cases "wrap_words font mw [] first others")
  show ?thesis
    using Cons w0 wrap_paragraphs_lines [of font mw "ls @ [cur]" ps] by simp
qed

lemma wrap_paragraphs_concat:
  "wrap_paragraphs font mw [] ps = concat (map (\<lambda>p. wrap_paragraphs font mw [] [p]) ps)"
proof (induction ps)
  case Nil
  show ?case by simp
next
  case (Cons p ps)
  then show ?case
    using wrap_paragraphs_Cons [of font mw p ps] by simp
qed

lemma wrap_text_paragraph:
  "LF \<notin> set p \<Longrightarrow> wrap_text p font mw = wrap_paragraphs font mw [] [p]"
  unfolding wrap_text_def by (simp add: py_split_sep_single)

lemma wrap_text_concat:
  "wrap_text text font mw = concat (map (\<lambda>p. wrap_text p font mw) (py_split_sep LF text))"
proof -
  have eq: "map (\<lambda>p. wrap_paragraphs font mw [] [p]) (py_split_sep LF text)
            = map (\<lambda>p. wrap_text p font mw) (py_split_sep LF text)"
    by (rule map_cong [OF refl]) (simp only: wrap_text_paragraph py_split_sep_pieces not_False_eq_True)
  have "wrap_text text font mw = wrap_paragraphs font mw [] (py_split_sep LF text)"
    by (simp only: wrap_text_def)
  also have "\<dots> = concat (map (\<lambda>p. wrap_paragraphs font mw [] [p]) (py_split_sep LF text))"
    by (rule wrap_paragraphs_concat)
  also have "\<dots> = concat (map (\<lambda>p. wrap_text p font mw) (py_split_sep LF text))"
    by (simp only: eq)
  finally show ?thesis .
qed

text \<open>The words of the lines the inner loop leaves are the words it was given.\<close>

lemma wrap_words_words:
  "list_all is_word ws \<Longrightarrow>
   wrap_words font mw lines cur ws = (lines', cur') \<Longrightarrow>
   concat (map py_split lines') @ py_split cur'
     = concat (map py_split lines) @ py_split cur @ ws"
proof (induction ws arbitrary: lines cur)
  case Nil
  then show ?case by simp
next
  case (Cons w ws)
  have w: "py_split w = [w]" and ws: "list_all is_word ws"
    using Cons.prems(1) by (simp_all add: py_split_word)
  show ?case
  proof (cases "line_width font (cur @ [SP] @ w) \<le> mw")
    case True
    then have "wrap_words font mw lines (cur @ [SP] @ w) ws = (lines', cur')"
      using Cons.prems(2) by simp
    from Cons.IH [OF ws this] show ?thesis
      using py_split_join [of cur w] w by simp
  next
    case False
    then have "wrap_words font mw (lines @ [cur]) w ws = (lines', cur')"
      using Cons.prems(2) by simp
    from Cons.IH [OF ws this] show ?thesis
      using w by simp
  qed
qed

lemma wrap_text_paragraph_words:
  assumes "LF \<notin> set p"
  shows "concat (map py_split (wrap_text p font mw)) = py_split p"
    and "py_split p = [] \<Longrightarrow> wrap_text p font mw = [[]]"
proof -
  show "py_split p = [] \<Longrightarrow> wrap_text p font mw = [[]]"
    using assms by (simp add: wrap_text_paragraph)
  show "concat (map py_split (wrap_text p font mw)) = py_split p"
  proof (cases "py_split p")
    case Nil
    then show ?thesis
      using assms by (simp add: wrap_text_paragraph py_split_def)
  next
    case (Cons first others)
    obtain ls cur where w0: "wrap_words font mw [] first others = (ls, cur)"
      by (cases "wrap_words font mw [] first others")
    have words: "is_word first" "list_all is_word others"
      using py_split_words [of p] Cons by simp_all
    have "concat (map py_split ls) @ py_split cur = py_split first @ others"
      using wrap_words_words [OF words(2) w0] by simp
    then show ?thesis
      using assms Cons w0 words(1) by (simp add: wrap_text_paragraph py_split_word)
  qed
qed

text \<open>A line is within the width, or it is a single word (or empty).\<close>

definition fits :: "font \<Rightarrow> int \<Rightarrow> pystr \<Rightarrow> bool" where
  "fits font mw l \<longleftrightarrow> line_width font l \<le> mw \<or> length (py_split l) \<le> 1"

lemma wrap_words_fits:
  "list_all is_word ws \<Longrightarrow> list_all (fits font mw) lines \<Longrightarrow> fits font mw cur \<Longrightarrow>
   wrap_words font mw lines cur ws = (lines', cur') \<Longrightarrow>
   list_all (fits font mw) lines' \<and> fits font mw cur'"
proof (induction ws arbitrary: lines cur)
  case Nil
  then show ?case by simp
next
  case (Cons w ws)
  have w: "fits font mw w" and ws: "list_all is_word ws"
    using Cons.prems(1) by (simp_all add: fits_def py_split_word)
  show ?case
  proof (cases "line_width font (cur @ [SP] @ w) \<le> mw")
    case True
    then have run: "wrap_words font mw lines (cur @ [SP] @ w) ws = (lines', cur')"
      using Cons.prems(4) by simp
    have "fits font mw (cur @ [SP] @ w)"
      using True by (simp add: fits_def)
    from Cons.IH [OF ws Cons.prems(2) this run] show ?thesis .
  next
    case False
    then have run: "wrap_words font mw (lines @ [cur]) w ws = (lines', cur')"
      using Cons.prems(4) by simp
    have "list_all (fits font mw) (lines @ [cur])"
      using Cons.prems(2,3) by simp
    from Cons.IH [OF ws this w run] show ?thesis .
  qed
qed

lemma wrap_paragraphs_fits:
  "list_all (fits font mw) lines \<Longrightarrow> list_all (fits font mw) (wrap_paragraphs font mw lines ps)"
proof (induction ps arbitrary: lines)
  case Nil
  then show ?case by simp
next
  case (Cons p ps)
  show ?case
  proof (cases "py_split p")
    case Nil
    have "fits font mw []"
      by (simp add: fits_def py_split_def)
    then have "list_all (fits font mw) (lines @ [[]])"
      using Cons.prems by simp
    from Cons.IH [OF this] show ?thesis
      using Nil by simp
  next
    case (Cons first others)
    obtain ls cur where w0: "wrap_words font mw lines first others = (ls, cur)"
      by (cases "wrap_words font mw lines first others")
    have words: "is_word first" "list_all is_word others"
      using py_split_words [of p] Cons by simp_all
    have "fits font mw first"
      using words(1) by (simp add: fits_def py_split_word)
    from wrap_words_fits [OF words(2) Cons.prems this w0]
    have "list_all (fits font mw) (ls @ [cur])"
      by simp
    from Cons.IH [OF this] show ?thesis
      using Cons w0 by simp
  qed
qed

lemma wrap_text_fits: "list_all (fits font mw) (wrap_text text font mw)"
  unfolding wrap_text_def by (rule wrap_paragraphs_fits) simp

lemma line_width_bbox:
  "getbbox font l = Some (x0, y0, x1, y1) \<Longrightarrow> line_width font l = x1 - x0"
  by (simp add: line_width_def)

text \<open>
  Claim C3. The lines \<open>_wrap_text\<close> returns are those of the paragraphs of the text
  (split at line feeds), paragraph by paragraph; for each paragraph the words of its
  lines, taken in order, are exactly the paragraph's whitespace-separated words, and a
  paragraph without words gives the one empty line; and every returned line of two or
  more words has measured width at most \<open>max_width\<close>: the width the code measures, which
  is right minus left of \<open>font.getbbox\<close> whenever \<open>getbbox\<close> returns a box.
\<close>

theorem wrap_text_words_and_width:
  "wrap_text text font max_width
     = concat (map (\<lambda>p. wrap_text p font max_width) (py_split_sep LF text)) \<and>
   (\<forall>p \<in> set (py_split_sep LF text).
      concat (map py_split (wrap_text p font max_width)) = py_split p \<and>
      (py_split p = [] \<longrightarrow> wrap_text p font max_width = [[]])) \<and>
   (\<forall>l \<in> set (wrap_text text font max_width).
      2 \<le> length (py_split l) \<longrightarrow>
        line_width font l \<le> max_width \<and>
        (\<forall>x0 y0 x1 y1.
           getbbox font l = Some (x0, y0, x1, y1) \<longrightarrow> x1 - x0 \<le> max_width))"
proof (intro conjI ballI impI allI)
  show "wrap_text text font max_width
        = concat (map (\<lambda>p. wrap_text p font max_width) (py_split_sep LF text))"
    by (rule wrap_text_concat)
next
  fix p assume "p \<in> set (py_split_sep LF text)"
  then have p: "LF \<notin> set p"
    by (rule py_split_sep_pieces)
  show "concat (map py_split (wrap_text p font max_width)) = py_split p"
    by (rule wrap_text_paragraph_words(1)[OF p])
  assume "py_split p = []"
  then show "wrap_text p font max_width = [[]]"
    by (rule wrap_text_paragraph_words(2)[OF p])
next
  fix l assume l: "l \<in> set (wrap_text text font max_width)" and two: "2 \<le> length (py_split l)"
  have "fits font max_width l"
    using wrap_text_fits [of font max_width "text"] l by (simp add: list_all_iff)
  then show width: "line_width font l \<le> max_width"
    using two by (simp add: fits_def)
  fix x0 y0 x1 y1
  assume "getbbox font l = Some (x0, y0, x1, y1)"
  then show "x1 - x0 \<le> max_width"
    using width by (simp add: line_width_bbox)
qed

text \<open>A text of three paragraphs wrapped at 50 pixels in a font 10 pixels per code point.\<close>

lemma sample_text_paragraphs:
  "py_split_sep LF sample_text = [py ''aaaaaaaa bb cc'', [], py ''dd'']"
  by (simp add: sample_text_def py_split_sep_def LF_def py_def)

lemma sample_wrap_first:
  "wrap_text (py ''aaaaaaaa bb cc'') sample_font 50 = [py ''aaaaaaaa'', py ''bb cc'']"
  by (simp add: wrap_text_def py_split_sep_def LF_def py_split_def is_space_def
      line_width_def sample_font_def mono_font_def SP_def py_def)

lemma sample_wrap_empty: "wrap_text [] sample_font 50 = [[]]"
  by (simp add: wrap_text_def py_split_sep_def py_split_def)

lemma sample_wrap_last: "wrap_text (py ''dd'') sample_font 50 = [py ''dd'']"
  by (simp add: wrap_text_def py_split_sep_def LF_def py_split_def is_space_def py_def)

lemma sample_wrap:
  "wrap_text sample_text sample_font 50 = [py ''aaaaaaaa'', py ''bb cc'', [], py ''dd'']"
proof -
  have "wrap_text sample_text sample_font 50
        = concat (map (\<lambda>p. wrap_text p sample_font 50) [py ''aaaaaaaa bb cc'', [], py ''dd''])"
    using wrap_text_concat [of sample_text sample_font 50]
    by (simp only: sample_text_paragraphs)
  also have "\<dots> = concat [wrap_text (py ''aaaaaaaa bb cc'') sample_font 50,
                            wrap_text [] sample_font 50, wrap_text (py ''dd'') sample_font 50]"
    by simp
  also have "\<dots> = [py ''aaaaaaaa'', py ''bb cc'', [], py ''dd'']"
    by (simp only: sample_wrap_first sample_wrap_empty sample_wrap_last concat.simps append.simps)
  finally show ?thesis .
qed

theorem wrap_text_words_and_width_witness:
  "py ''bb cc'' \<in> set (wrap_text sample_text sample_font 50) \<and>
   2 \<le> length (py_split (py ''bb cc'')) \<and>
   line_width sample_font (py ''bb cc'') \<le> 50 \<and>
   getbbox sample_font (py ''bb cc'') = Some (0, 0, 50, 12) \<and>
   py ''aaaaaaaa'' \<in> set (wrap_text sample_text sample_font 50) \<and>
   length (py_split (py ''aaaaaaaa'')) = 1 \<and>
   \<not> line_width sample_font (py ''aaaaaaaa'') \<le> 50 \<and>
   [] \<in> set (py_split_sep LF sample_text) \<and>
   py_split [] = [] \<and>
   wrap_text [] sample_font 50 = [[]]"
proof -
  have mem: "py ''bb cc'' \<in> set (wrap_text sample_text sample_font 50)"
    by (simp only: sample_wrap) simp
  have two: "2 \<le> length (py_split (py ''bb cc''))"
    by (simp add: py_split_def is_space_def py_def)
  have par: "[] \<in> set (py_split_sep LF sample_text)"
    by (simp only: sample_text_paragraphs) simp
  have nowords: "py_split [] = []"
    by (simp add: py_split_def)
  have "line_width sample_font (py ''bb cc'') \<le> 50"
    using wrap_text_words_and_width [of sample_text sample_font 50] mem two by blast
  moreover have "wrap_text [] sample_font 50 = [[]]"
    using wrap_text_words_and_width [of sample_text sample_font 50] par nowords by blast
  moreover have "getbbox sample_font (py ''bb cc'') = Some (0, 0, 50, 12)"
    by (simp add: sample_font_def mono_font_def py_def)
  moreover have "py ''aaaaaaaa'' \<in> set (wrap_text sample_text sample_font 50)"
    by (simp only: sample_wrap) simp
  moreover have "length (py_split (py ''aaaaaaaa'')) = 1"
    by (simp add: py_split_def is_space_def py_def)
  moreover have "\<not> line_width sample_font (py ''aaaaaaaa'') \<le> 50"
    by (simp add: line_width_def sample_font_def mono_font_def py_def)
  ultimately show ?thesis
    using mem two par nowords by blast
qed

section \<open>Excel reader: proofs\<close>

lemma parse_row_Stored:
  assumes "parse_row ws columns row_num entries = Stored entries'"
  shows "\<exists>position_col v row.
           map_of columns (py ''position'') = Some position_col \<and>
           sheet_cell ws row_num (position_col + 1) = Inr (Some v) \<and>
           py_strip (py_str v) \<noteq> [] \<and>
           read_row_data ws row_num columns [] = Inr row \<and>
           entries' = AList.update (normalize_position (py_str v)) row entries"
  using assms unfolding parse_row_def Let_def
  by (auto split: option.splits sum.splits if_splits)

lemma parse_row_entries:
  assumes "parse_row ws columns row_num entries = Stored entries'"
  shows "\<exists>key row. \<forall>other. parse_row ws columns row_num other = Stored (AList.update key row other)"
  using assms unfolding parse_row_def Let_def
  by (auto split: option.splits sum.splits if_splits)

lemma update_keys_mono: "fst ` set entries \<subseteq> fst ` set (AList.update k v entries)"
  by (induction entries) auto

lemma update_key_in: "k \<in> fst ` set (AList.update k v entries)"
  by (induction entries) auto

lemma update_keys: "fst ` set (AList.update k v entries) = insert k (fst ` set entries)"
  by (induction entries) auto

lemma parse_loop_keys_mono:
  "parse_loop ws columns row_num entries = (final, err) \<Longrightarrow> fst ` set entries \<subseteq> fst ` set final"
proof (induction ws columns row_num entries rule: parse_loop.induct)
  case (1 ws columns row_num entries)
  show ?case
  proof (cases "parse_row ws columns row_num entries")
    case Break
    then show ?thesis using "1.prems" by (simp add: parse_loop.simps)
  next
    case (Stored entries')
    then have "parse_loop ws columns (row_num + 1) entries' = (final, err)"
      using "1.prems" by (simp add: parse_loop.simps)
    from "1.IH" [OF Stored this] have "fst ` set entries' \<subseteq> fst ` set final" .
    moreover obtain k v where "entries' = AList.update k v entries"
      using parse_row_Stored [OF Stored] by blast
    ultimately show ?thesis
      using update_keys_mono [of entries k v] by blast
  next
    case (Raised e)
    then show ?thesis using "1.prems" by (simp add: parse_loop.simps)
  qed
qed

lemma parse_loop_keys_origin:
  "parse_loop ws columns row_num entries = (final, err) \<Longrightarrow> k \<in> fst ` set final \<Longrightarrow>
   k \<in> fst ` set entries \<or>
   (\<exists>r position_col v. row_num \<le> r \<and> map_of columns (py ''position'') = Some position_col \<and>
      sheet_cell ws r (position_col + 1) = Inr (Some v) \<and> k = normalize_position (py_str v))"
proof (induction ws columns row_num entries rule: parse_loop.induct)
  case (1 ws columns row_num entries)
  show ?case
  proof (cases "parse_row ws columns row_num entries")
    case Break
    then show ?thesis using "1.prems" by (simp add: parse_loop.simps)
  next
    case (Stored entries')
    then have run: "parse_loop ws columns (row_num + 1) entries' = (final, err)"
      using "1.prems" by (simp add: parse_loop.simps)
    obtain position_col v row where
      pc: "map_of columns (py ''position'') = Some position_col" and
      cell: "sheet_cell ws row_num (position_col + 1) = Inr (Some v)" and
      upd: "entries' = AList.update (normalize_position (py_str v)) row entries"
      using parse_row_Stored [OF Stored] by blast
    from "1.IH" [OF Stored run "1.prems"(2)]
    consider "k \<in> fst ` set entries'"
      | r pc' v' where "row_num + 1 \<le> r" "map_of columns (py ''position'') = Some pc'"
          "sheet_cell ws r (pc' + 1) = Inr (Some v')" "k = normalize_position (py_str v')"
      by blast
    then show ?thesis
    proof cases
      case 1
      then have "k = normalize_position (py_str v) \<or> k \<in> fst ` set entries"
        unfolding upd update_keys by blast
      then show ?thesis
        using pc cell by (metis order_refl)
    next
      case 2
      then have "row_num \<le> r" by simp
      then show ?thesis
        using 2 by blast
    qed
  next
    case (Raised e)
    then show ?thesis using "1.prems" by (simp add: parse_loop.simps)
  qed
qed

lemma parse_loop_rows_present:
  "parse_loop ws columns row_num entries = (final, err) \<Longrightarrow> row_num \<le> r \<Longrightarrow>
   (\<forall>r'. row_num \<le> r' \<and> r' \<le> r \<longrightarrow> (\<exists>e. parse_row ws columns r' [] = Stored e)) \<Longrightarrow>
   \<exists>position_col v. map_of columns (py ''position'') = Some position_col \<and>
      sheet_cell ws r (position_col + 1) = Inr (Some v) \<and>
      normalize_position (py_str v) \<in> fst ` set final"
proof (induction ws columns row_num entries rule: parse_loop.induct)
  case (1 ws columns row_num entries)
  obtain e0 where e0: "parse_row ws columns row_num [] = Stored e0"
    using "1.prems"(2,3) by blast
  obtain key row where any: "\<And>other. parse_row ws columns row_num other = Stored (AList.update key row other)"
    using parse_row_entries [OF e0] by blast
  let ?entries' = "AList.update key row entries"
  have stored: "parse_row ws columns row_num entries = Stored ?entries'"
    by (rule any)
  then have run: "parse_loop ws columns (row_num + 1) ?entries' = (final, err)"
    using "1.prems"(1) by (simp add: parse_loop.simps)
  show ?case
  proof (cases "r = row_num")
    case True
    obtain position_col v row' where
      pc: "map_of columns (py ''position'') = Some position_col" and
      cell: "sheet_cell ws row_num (position_col + 1) = Inr (Some v)" and
      upd: "?entries' = AList.update (normalize_position (py_str v)) row' entries"
      using parse_row_Stored [OF stored] by blast
    have "normalize_position (py_str v) \<in> fst ` set ?entries'"
      unfolding upd by (rule update_key_in)
    then have "normalize_position (py_str v) \<in> fst ` set final"
      using parse_loop_keys_mono [OF run] by blast
    then show ?thesis
      using pc cell True by blast
  next
    case False
    then have le: "row_num + 1 \<le> r"
      using "1.prems"(2) by simp
    have "\<forall>r'. row_num + 1 \<le> r' \<and> r' \<le> r \<longrightarrow> (\<exists>e. parse_row ws columns r' [] = Stored e)"
      using "1.prems"(3) by simp
    from "1.IH" [OF stored run le this] show ?thesis .
  qed
qed

text \<open>
  Claim C4. \<open>get_data_for_file\<close> returns the row stored under the stem of the file
  name, and \<open>None\<close> exactly when no row has that key. In \<open>parse\<close>, a row is stored
  under its position value converted to a string, stripped, with every full stop
  (code point 46) replaced by a hyphen (45), and is then found under that key; every key
  of the final \<open>data\<close> was there before or is such a key of a row at or after the start
  row; and every row before the first row at which the loop stops has its key in the
  final \<open>data\<close>.
\<close>

theorem row_lookup_by_stem:
  "get_data_for_file reader filename = map_of (xl_data reader) (path_stem filename) \<and>
   (get_data_for_file reader filename = None
      \<longleftrightarrow> path_stem filename \<notin> fst ` set (xl_data reader)) \<and>
   (\<forall>entries'. parse_row ws columns row_num entries = Stored entries' \<longrightarrow>
      (\<exists>position_col v row.
         map_of columns (py ''position'') = Some position_col \<and>
         sheet_cell ws row_num (position_col + 1) = Inr (Some v) \<and>
         entries' = AList.update (py_replace 46 45 (py_strip (py_str v))) row entries \<and>
         map_of entries' (py_replace 46 45 (py_strip (py_str v))) = Some row)) \<and>
   (\<forall>final err. parse_loop ws columns row_num entries = (final, err) \<longrightarrow>
      (\<forall>k \<in> fst ` set final.
         k \<in> fst ` set entries \<or>
         (\<exists>r position_col v. row_num \<le> r \<and>
            map_of columns (py ''position'') = Some position_col \<and>
            sheet_cell ws r (position_col + 1) = Inr (Some v) \<and>
            k = py_replace 46 45 (py_strip (py_str v)))) \<and>
      (\<forall>r. row_num \<le> r \<and>
            (\<forall>r'. row_num \<le> r' \<and> r' \<le> r \<longrightarrow> (\<exists>e. parse_row ws columns r' [] = Stored e)) \<longrightarrow>
         (\<exists>position_col v.
            map_of columns (py ''position'') = Some position_col \<and>
            sheet_cell ws r (position_col + 1) = Inr (Some v) \<and>
            py_replace 46 45 (py_strip (py_str v)) \<in> fst ` set final)))"
proof (intro conjI allI impI ballI)
  show "get_data_for_file reader filename = map_of (xl_data reader) (path_stem filename)"
    by (simp add: get_data_for_file_def)
  show "get_data_for_file reader filename = None
        \<longleftrightarrow> path_stem filename \<notin> fst ` set (xl_data reader)"
    by (simp add: get_data_for_file_def map_of_eq_None_iff)
next
  fix entries'
  assume "parse_row ws columns row_num entries = Stored entries'"
  from parse_row_Stored [OF this]
  show "\<exists>position_col v row.
         map_of columns (py ''position'') = Some position_col \<and>
         sheet_cell ws row_num (position_col + 1) = Inr (Some v) \<and>
         entries' = AList.update (py_replace 46 45 (py_strip (py_str v))) row entries \<and>
         map_of entries' (py_replace 46 45 (py_strip (py_str v))) = Some row"
    unfolding normalize_position_def by (fastforce simp: update_conv')
next
  fix final err k
  assume "parse_loop ws columns row_num entries = (final, err)" "k \<in> fst ` set final"
  from parse_loop_keys_origin [OF this]
  show "k \<in> fst ` set entries \<or>
        (\<exists>r position_col v. row_num \<le> r \<and>
           map_of columns (py ''position'') = Some position_col \<and>
           sheet_cell ws r (position_col + 1) = Inr (Some v) \<and>
           k = py_replace 46 45 (py_strip (py_str v)))"
    unfolding normalize_position_def .
next
  fix final err r
  assume run: "parse_loop ws columns row_num entries = (final, err)"
    and r: "row_num \<le> r \<and>
            (\<forall>r'. row_num \<le> r' \<and> r' \<le> r \<longrightarrow> (\<exists>e. parse_row ws columns r' [] = Stored e))"
  from parse_loop_rows_present [OF run conjunct1 [OF r] conjunct2 [OF r]]
  show "\<exists>position_col v.
          map_of columns (py ''position'') = Some position_col \<and>
          sheet_cell ws r (position_col + 1) = Inr (Some v) \<and>
          py_replace 46 45 (py_strip (py_str v)) \<in> fst ` set final"
    unfolding normalize_position_def .
qed

text \<open>
  The sample worksheet: the float position 1.1 in row 11 is stored under \<open>1-1\<close> and
  found by the file \<open>1-1.png\<close>; no row is found for \<open>3.png\<close>.
\<close>

lemma sample_cells:
  "sheet_cell sample_sheet 11 1 = Inr (Some (CellOther (py ''1.1'')))"
  "sheet_cell sample_sheet 11 20 = Inr (Some (CellStr (py ''ACME'')))"
  "sheet_cell sample_sheet 11 22 = Inr None"
  "sheet_cell sample_sheet 11 23 = Inr None"
  "sheet_cell sample_sheet 11 24 = Inr None"
  "sheet_cell sample_sheet 12 1 = Inr (Some (CellInt 2))"
  "sheet_cell sample_sheet 12 20 = Inr None"
  "sheet_cell sample_sheet 12 22 = Inr None"
  "sheet_cell sample_sheet 12 23 = Inr None"
  "sheet_cell sample_sheet 12 24 = Inr None"
  "sheet_cell sample_sheet 13 1 = Inr None"
  by (simp_all add: sheet_cell_def sample_sheet_def nth_append)

lemma sample_row_11:
  "parse_row sample_sheet DEFAULT_COLUMNS 11 [] = Stored [(py ''1-1'', sample_row)]"
proof -
  have "read_row_data sample_sheet 11 DEFAULT_COLUMNS [] = Inr sample_row"
    by (simp add: DEFAULT_COLUMNS_def sample_cells sample_row_def)
  then show ?thesis
    unfolding parse_row_def
    by (simp add: DEFAULT_COLUMNS_def sample_cells normalize_position_def py_replace_def
        py_strip_def is_space_def py_def)
qed

lemma sample_row_12:
  "parse_row sample_sheet DEFAULT_COLUMNS 12 [(py ''1-1'', sample_row)]
   = Stored [(py ''1-1'', sample_row), (py ''2'', sample_row2)]"
proof -
  have "read_row_data sample_sheet 12 DEFAULT_COLUMNS [] = Inr sample_row2"
    by (simp add: DEFAULT_COLUMNS_def sample_cells sample_row2_def)
  then show ?thesis
    unfolding parse_row_def
    by (simp add: DEFAULT_COLUMNS_def sample_cells normalize_position_def py_replace_def
        py_strip_def is_space_def str_int_def digits.simps py_def)
qed

lemma sample_row_13: "parse_row sample_sheet DEFAULT_COLUMNS 13 entries = Break"
  unfolding parse_row_def by (simp add: DEFAULT_COLUMNS_def sample_cells)

lemma sample_parse_loop:
  "parse_loop sample_sheet DEFAULT_COLUMNS 11 []
   = ([(py ''1-1'', sample_row), (py ''2'', sample_row2)], None)"
proof -
  have next_row: "(11::int) + 1 = 12" "(12::int) + 1 = 13"
    by simp_all
  have "parse_loop sample_sheet DEFAULT_COLUMNS 11 []
        = parse_loop sample_sheet DEFAULT_COLUMNS 12 [(py ''1-1'', sample_row)]"
    by (subst parse_loop.simps) (simp only: sample_row_11 parse_step.case next_row)
  also have "\<dots> = parse_loop sample_sheet DEFAULT_COLUMNS 13
                      [(py ''1-1'', sample_row), (py ''2'', sample_row2)]"
    by (subst parse_loop.simps) (simp only: sample_row_12 parse_step.case next_row)
  also have "\<dots> = ([(py ''1-1'', sample_row), (py ''2'', sample_row2)], None)"
    by (subst parse_loop.simps) (simp only: sample_row_13 parse_step.case)
  finally show ?thesis .
qed

lemma sample_parse:
  "xl_data (fst (parse None sample_reader)) = [(py ''1-1'', sample_row), (py ''2'', sample_row2)]"
  by (simp add: parse_def sample_reader_def DATA_START_ROW_def sample_parse_loop)

lemma sample_stems:
  "path_stem (py ''1-1.png'') = py ''1-1''"
  "path_stem (py ''3.png'') = py ''3''"
  by (simp_all add: path_stem_def path_name_def py_split_sep_def rfind_def py_def)

theorem row_lookup_by_stem_witness:
  "parse_row sample_sheet DEFAULT_COLUMNS 11 [] = Stored [(py ''1-1'', sample_row)] \<and>
   py_replace 46 45 (py_strip (py_str (CellOther (py ''1.1'')))) = py ''1-1'' \<and>
   parse_loop sample_sheet DEFAULT_COLUMNS 11 []
     = ([(py ''1-1'', sample_row), (py ''2'', sample_row2)], None) \<and>
   get_data_for_file (fst (parse None sample_reader)) (py ''1-1.png'') = Some sample_row \<and>
   get_data_for_file (fst (parse None sample_reader)) (py ''3.png'') = None"
proof -
  have key: "py_replace 46 45 (py_strip (py_str (CellOther (py ''1.1'')))) = py ''1-1''"
    by (simp add: py_replace_def py_strip_def is_space_def py_def)
  have "get_data_for_file (fst (parse None sample_reader)) (py ''1-1.png'')
        = map_of (xl_data (fst (parse None sample_reader))) (path_stem (py ''1-1.png''))"
    using row_lookup_by_stem [of "fst (parse None sample_reader)" "py ''1-1.png''"] by blast
  then have found: "get_data_for_file (fst (parse None sample_reader)) (py ''1-1.png'') = Some sample_row"
    by (simp only: sample_parse sample_stems) simp
  have "path_stem (py ''3.png'') \<notin> fst ` set (xl_data (fst (parse None sample_reader)))"
    by (simp only: sample_parse sample_stems) simp
  then have "get_data_for_file (fst (parse None sample_reader)) (py ''3.png'') = None"
    using row_lookup_by_stem [of "fst (parse None sample_reader)" "py ''3.png''"] by blast
  with key found sample_row_11 sample_parse_loop show ?thesis
    by blast
qed

section \<open>process\_image: proofs\<close>

lemma compose_Inr:
  assumes "compose ev st stamp_image image_path excel_data fixed_texts output_path = Inr (cv, ops)"
  shows "\<exists>original fnt.
           image_open ev image_path = Inr original \<and>
           get_font ev (get_or (cfg_font_size st) 12) = Inr fnt \<and>
           make_canvas ev st stamp_image excel_data fixed_texts fnt original = Inr cv \<and>
           draw_panel ev st stamp_image excel_data fixed_texts fnt (panel_area cv) = Inr ops \<and>
           image_save ev output_path (output_kind st) = None"
  using assms unfolding compose_def
  by (auto split: sum.splits option.splits)

lemma make_canvas_left:
  assumes "make_canvas ev st stamp_image excel_data fixed_texts fnt original = Inr cv"
    and "get_or (cfg_position st) (py ''left'') = py ''left''"
  shows "\<exists>required.
           required_height ev st stamp_image excel_data fixed_texts fnt = Inr required \<and>
           canvas_size cv = (fst original + get_or (cfg_panel_width st) 300,
                             max (snd original) (required + 20)) \<and>
           pasted_at cv = (get_or (cfg_panel_width st) 300, 0) \<and>
           panel_area cv = (0, 0, get_or (cfg_panel_width st) 300,
                            max (snd original) (required + 20))"
  using assms unfolding make_canvas_def Let_def
  by (auto split: sum.splits option.splits)

lemma make_canvas_bottom:
  assumes "make_canvas ev st stamp_image excel_data fixed_texts fnt original = Inr cv"
    and "get_or (cfg_position st) (py ''left'') \<noteq> py ''left''"
  shows "\<exists>panel_h.
           panel_height ev st stamp_image excel_data fixed_texts fnt (fst original) = Inr panel_h \<and>
           canvas_size cv = (fst original, snd original + panel_h) \<and>
           pasted_at cv = (0, 0) \<and>
           panel_area cv = (0, snd original, fst original, snd original + panel_h)"
  using assms unfolding make_canvas_def Let_def
  by (auto split: sum.splits option.splits)

text \<open>
  Claim C1. When \<open>process_image\<close> has composed its result: with the position setting
  \<open>left\<close> the canvas is \<open>original.width + panel_width\<close> wide and
  \<open>max(original.height, required_height + 20)\<close> high, the source image is pasted at
  \<open>(panel_width, 0)\<close> and the panel is \<open>(0, 0, panel_width, new_height)\<close>; with any other
  position setting the canvas is \<open>original.width\<close> wide and
  \<open>original.height + panel_height\<close> high, the source is pasted at \<open>(0, 0)\<close> and the panel
  is \<open>(0, original.height, new_width, new_height)\<close>.
\<close>

theorem canvas_geometry:
  assumes "compose ev st stamp_image image_path excel_data fixed_texts output_path = Inr (cv, ops)"
  shows "\<exists>original fnt.
           image_open ev image_path = Inr original \<and>
           get_font ev (get_or (cfg_font_size st) 12) = Inr fnt \<and>
           (get_or (cfg_position st) (py ''left'') = py ''left'' \<longrightarrow>
              (\<exists>required.
                 required_height ev st stamp_image excel_data fixed_texts fnt = Inr required \<and>
                 canvas_size cv = (fst original + get_or (cfg_panel_width st) 300,
                                   max (snd original) (required + 20)) \<and>
                 pasted_at cv = (get_or (cfg_panel_width st) 300, 0) \<and>
                 panel_area cv = (0, 0, get_or (cfg_panel_width st) 300,
                                  max (snd original) (required + 20)))) \<and>
           (get_or (cfg_position st) (py ''left'') \<noteq> py ''left'' \<longrightarrow>
              (\<exists>panel_h.
                 panel_height ev st stamp_image excel_data fixed_texts fnt (fst original)
                   = Inr panel_h \<and>
                 canvas_size cv = (fst original, snd original + panel_h) \<and>
                 pasted_at cv = (0, 0) \<and>
                 panel_area cv = (0, snd original, fst original, snd original + panel_h)))"
proof -
  obtain original fnt where
    opened: "image_open ev image_path = Inr original" and
    loaded: "get_font ev (get_or (cfg_font_size st) 12) = Inr fnt" and
    made: "make_canvas ev st stamp_image excel_data fixed_texts fnt original = Inr cv"
    using compose_Inr [OF assms] by blast
  show ?thesis
    using opened loaded make_canvas_left [OF made] make_canvas_bottom [OF made] by blast
qed

text \<open>The sample image in the sample environment, with one fixed text of three words.\<close>

lemma sample_words_wrapped:
  "wrap_text sample_words (mono_font 10 12) 80 = [py ''aaaaa'', py ''bbbbb'', py ''ccccc'']"
  "wrap_text sample_words (mono_font 10 12) 980 = [sample_words]"
  by (simp_all add: sample_words_def wrap_text_def py_split_sep_def LF_def py_split_def
      is_space_def line_width_def mono_font_def SP_def py_def)

lemma sample_fields_hidden:
  "field_shown (sample_settings pos) excel_data (py ''inn'') = Inr False"
  "field_shown (sample_settings pos) excel_data (py ''kpp'') = Inr False"
  "field_shown (sample_settings pos) excel_data (py ''supplier'') = Inr False"
  "field_shown (sample_settings pos) excel_data (py ''hyperlink'') = Inr False"
  by (simp_all add: field_shown_def field_enabled_def sample_settings_def get_or_def)

lemma sample_settings_values:
  "get_or (cfg_panel_width (sample_settings pos)) 300 = 100"
  "get_or (cfg_font_size (sample_settings pos)) 12 = 12"
  "get_or (cfg_position (sample_settings pos)) (py ''left'') = pos"
  "get_or (cfg_stamp_enabled (sample_settings pos)) True = True"
  "get_or (cfg_stamp_scale (sample_settings pos)) 1 = 3 / 2"
  "get_or (cfg_background_color (sample_settings pos)) (py ''#FFFFFF'') = py ''#FFFFFF''"
  "get_or (cfg_text_color (sample_settings pos)) (py ''#000000'') = py ''#000000''"
  "element_offset (sample_settings pos) name = (0, 0)"
  "output_kind (sample_settings pos) = PNG"
  by (simp_all add: sample_settings_def get_or_def element_offset_def output_kind_def
      py_lower_def lower_char_def py_def)

lemma sample_colors:
  "unknown_color (py ''#FFFFFF'') = None"
  "unknown_color (py ''#000000'') = None"
  "unknown_color (py ''inky'')
   = Some (ValueError (py ''unknown color specifier: '' @ [39] @ py ''inky'' @ [39]))"
  by (simp_all add: unknown_color_def)

lemma sample_words_nonempty: "sample_words \<noteq> []"
  by (simp add: sample_words_def)

lemma sample_env_calls:
  "image_open sample_env (py ''a.png'') = Inr (1000, 600)"
  "image_open sample_env (py ''missing.png'')
   = Inl (FileNotFoundError
            (py ''[Errno 2] No such file or directory: '' @ [39] @ py ''missing.png'' @ [39]))"
  "get_font sample_env sz = Inr (mono_font 10 sz)"
  "image_new sample_env wh color = unknown_color color"
  "draw_text_raises sample_env color string = unknown_color color"
  "draw_line_raises sample_env color = unknown_color color"
  "image_resize sample_env wh = None"
  "stamp_paste sample_env wh xy = None"
  "image_save sample_env path kind = None"
  by (simp_all add: sample_env_def)

lemma sample_content_height:
  "content_height sample_env (sample_settings pos) None excel_data [sample_words]
     (mono_font 10 12) 980 20 = Inr 65"
  "content_height sample_env (sample_settings pos) None excel_data [sample_words]
     (mono_font 10 12) 80 20 = Inr 105"
  by (simp_all add: content_height_def one_line_height_def wrapped_height_def stamp_room_def
      sample_fields_hidden sample_words_wrapped sample_words_nonempty)

lemma sample_canvas_bottom:
  "make_canvas sample_env (sample_settings (py ''bottom'')) None excel_data [sample_words]
     (mono_font 10 12) (1000, 600)
   = Inr \<lparr>canvas_size = (1000, 685), pasted_at = (0, 0), panel_area = (0, 600, 1000, 685)\<rparr>"
  by (simp add: make_canvas_def panel_height_def sample_settings_values sample_content_height
      sample_env_calls sample_colors)

lemma sample_draw_bottom:
  "draw_panel sample_env (sample_settings (py ''bottom'')) None excel_data [sample_words]
     (mono_font 10 12) (0, 600, 1000, 685)
   = Inr [DrawLine (10, 620) (90, 620), DrawText (10, 635) (py ''aaaaa''),
          DrawText (10, 655) (py ''bbbbb''), Warning 675 685, DrawText (10, 675) (py ''ccccc'')]"
  by (simp add: draw_panel_def draw_texts_def draw_field_def draw_wrapped_def draw_stamp_def
      draw_text_def draw_line_def sample_env_calls sample_colors
      sample_settings_values sample_fields_hidden sample_words_wrapped sample_words_nonempty)

lemma sample_compose_bottom:
  "compose sample_env (sample_settings (py ''bottom'')) None (py ''a.png'') excel_data
     [sample_words] (py ''out/a.png'')
   = Inr (\<lparr>canvas_size = (1000, 685), pasted_at = (0, 0), panel_area = (0, 600, 1000, 685)\<rparr>,
          [DrawLine (10, 620) (90, 620), DrawText (10, 635) (py ''aaaaa''),
           DrawText (10, 655) (py ''bbbbb''), Warning 675 685, DrawText (10, 675) (py ''ccccc'')])"
proof -
  show ?thesis
    unfolding compose_def
    by (simp add: sample_env_calls sample_settings_values sample_canvas_bottom sample_draw_bottom)
qed

lemma sample_canvas_left:
  "make_canvas sample_env (sample_settings (py ''left'')) None excel_data [sample_words]
     (mono_font 10 12) (1000, 600)
   = Inr \<lparr>canvas_size = (1100, 600), pasted_at = (100, 0), panel_area = (0, 0, 100, 600)\<rparr>"
  by (simp add: make_canvas_def required_height_def sample_settings_values sample_content_height
      sample_env_calls sample_colors)

lemma sample_draw_left:
  "draw_panel sample_env (sample_settings (py ''left'')) None excel_data [sample_words]
     (mono_font 10 12) (0, 0, 100, 600)
   = Inr [DrawLine (10, 20) (90, 20), DrawText (10, 35) (py ''aaaaa''),
          DrawText (10, 55) (py ''bbbbb''), DrawText (10, 75) (py ''ccccc'')]"
  by (simp add: draw_panel_def draw_texts_def draw_field_def draw_wrapped_def draw_stamp_def
      draw_text_def draw_line_def sample_env_calls sample_colors
      sample_settings_values sample_fields_hidden sample_words_wrapped sample_words_nonempty)

lemma sample_compose_left:
  "compose sample_env (sample_settings (py ''left'')) None (py ''a.png'') excel_data
     [sample_words] (py ''out/a.png'')
   = Inr (\<lparr>canvas_size = (1100, 600), pasted_at = (100, 0), panel_area = (0, 0, 100, 600)\<rparr>,
          [DrawLine (10, 20) (90, 20), DrawText (10, 35) (py ''aaaaa''),
           DrawText (10, 55) (py ''bbbbb''), DrawText (10, 75) (py ''ccccc'')])"
  unfolding compose_def
  by (simp add: sample_env_calls sample_settings_values sample_canvas_left sample_draw_left)









theorem canvas_geometry_witness:
  "compose sample_env (sample_settings (py ''left'')) None (py ''a.png'') (Some sample_row)
     [sample_words] (py ''out/a.png'')
   = Inr (\<lparr>canvas_size = (1100, 600), pasted_at = (100, 0), panel_area = (0, 0, 100, 600)\<rparr>,
          [DrawLine (10, 20) (90, 20), DrawText (10, 35) (py ''aaaaa''),
           DrawText (10, 55) (py ''bbbbb''), DrawText (10, 75) (py ''ccccc'')]) \<and>
   get_or (cfg_position (sample_settings (py ''left''))) (py ''left'') = py ''left'' \<and>
   required_height sample_env (sample_settings (py ''left'')) None (Some sample_row)
     [sample_words] (mono_font 10 12) = Inr 105 \<and>
   (1100, 600) = (1000 + 100, max 600 (105 + (20::int))) \<and>
   compose sample_env (sample_settings (py ''bottom'')) None (py ''a.png'') (Some sample_row)
     [sample_words] (py ''out/a.png'')
   = Inr (\<lparr>canvas_size = (1000, 685), pasted_at = (0, 0), panel_area = (0, 600, 1000, 685)\<rparr>,
          [DrawLine (10, 620) (90, 620), DrawText (10, 635) (py ''aaaaa''),
           DrawText (10, 655) (py ''bbbbb''), Warning 675 685, DrawText (10, 675) (py ''ccccc'')]) \<and>
   get_or (cfg_position (sample_settings (py ''bottom''))) (py ''left'') \<noteq> py ''left'' \<and>
   panel_height sample_env (sample_settings (py ''bottom'')) None (Some sample_row)
     [sample_words] (mono_font 10 12) 1000 = Inr 85"
proof -
  have left: "get_or (cfg_position (sample_settings (py ''left''))) (py ''left'') = py ''left''"
    and bottom: "get_or (cfg_position (sample_settings (py ''bottom''))) (py ''left'') \<noteq> py ''left''"
    by (simp_all add: sample_settings_values)
  have "\<exists>required.
          required_height sample_env (sample_settings (py ''left'')) None (Some sample_row)
            [sample_words] (mono_font 10 12) = Inr required \<and>
          (1100, 600) = (1000 + 100, max 600 (required + 20))"
    using canvas_geometry [OF sample_compose_left [of "Some sample_row"]] left
    by (simp add: sample_env_calls sample_settings_values)
  moreover have "\<exists>panel_h.
          panel_height sample_env (sample_settings (py ''bottom'')) None (Some sample_row)
            [sample_words] (mono_font 10 12) 1000 = Inr panel_h \<and>
          (1000, 685) = (1000, 600 + panel_h)"
    using canvas_geometry [OF sample_compose_bottom [of "Some sample_row"]] bottom
    by (simp add: sample_env_calls sample_settings_values)
  moreover have "required_height sample_env (sample_settings (py ''left'')) None (Some sample_row)
     [sample_words] (mono_font 10 12) = Inr 105"
    by (simp add: required_height_def sample_settings_values sample_content_height)
  ultimately show ?thesis
    using left bottom sample_compose_left [of "Some sample_row"]
      sample_compose_bottom [of "Some sample_row"]
    by auto
qed

subsection \<open>Where the drawing pass leaves \<open>text_y\<close>\<close>















subsection \<open>The stamp\<close>









subsection \<open>What \<open>process_image\<close> raises and returns\<close>
























text \<open>
  Claim C2, which says that the warning branch of the fixed-text loop is never taken.
  With the panel at the bottom it is taken: the sizing pass wraps the fixed text at
  \<open>original.width - 20 = 980\<close> into one line and reserves a panel 85 high, the drawing
  pass wraps it at \<open>panel_width - 20 = 80\<close> into three lines, and the third line starts
  at \<open>y = 675\<close> with \<open>675 + 20 > 685 = panel_area[3]\<close>.
\<close>

theorem fixed_text_leaves_panel:
  "compose sample_env (sample_settings (py ''bottom'')) None (py ''a.png'') (Some sample_row)
     [sample_words] (py ''out/a.png'')
   = Inr (\<lparr>canvas_size = (1000, 685), pasted_at = (0, 0), panel_area = (0, 600, 1000, 685)\<rparr>,
          [DrawLine (10, 620) (90, 620), DrawText (10, 635) (py ''aaaaa''),
           DrawText (10, 655) (py ''bbbbb''), Warning 675 685, DrawText (10, 675) (py ''ccccc'')]) \<and>
   process_image sample_env (sample_settings (py ''bottom'')) None (py ''a.png'') (Some sample_row)
     [sample_words] (py ''out/a.png'') = Inr (True, py ''OK'') \<and>
   wrap_text sample_words (mono_font 10 12) (1000 - 20) = [sample_words] \<and>
   wrap_text sample_words (mono_font 10 12) (100 - 20) = [py ''aaaaa'', py ''bbbbb'', py ''ccccc'']"
  unfolding process_image_def
  by (simp add: sample_compose_bottom sample_words_wrapped)
section \<open>Worker: proofs\<close>


lemma statistics_signals_append:
  "statistics_signals (xs @ ys) = statistics_signals xs @ statistics_signals ys"
  by (induction xs rule: statistics_signals.induct) simp_all















lemma emit_statistics_last:
  "\<exists>st. statistics_signals (wk_signals (emit_statistics w))
          = statistics_signals (wk_signals w) @ [st] \<and>
        periodic_percent st \<and>
        (wk_total_files w = 0 \<longrightarrow> stat_percent st = IntNum 0) \<and>
        (wk_total_files w > 0 \<longrightarrow>
           stat_percent st = PercentFloat (wk_processed_count w) (wk_total_files w))"
  by (simp add: emit_statistics_def emit_def statistics_signals_append periodic_percent_def)







section \<open>Cancellation: proofs\<close>

lemma step_cancelled: "rs_cancelled s \<Longrightarrow> rs_cancelled (step outcome s a)"
  by (cases a; cases "rs_pc s")
     (auto simp: step_def run_thread_def split: list.splits option.splits sum.splits)

lemma exec_cancelled: "rs_cancelled s \<Longrightarrow> rs_cancelled (exec outcome s schedule)"
  unfolding exec_def
  by (induction schedule arbitrary: s) (simp_all add: step_cancelled)

lemma run_thread_submitted:
  assumes "rs_cancelled s"
  shows "\<exists>extra. rs_submitted (run_thread outcome s) = rs_submitted s @ extra \<and>
                 length extra + may_submit (run_thread outcome s) \<le> may_submit s"
  using assms
  by (cases "rs_pc s")
     (auto simp: run_thread_def may_submit_def split: list.splits option.splits sum.splits)

lemma step_submitted:
  assumes "rs_cancelled s"
  shows "\<exists>extra. rs_submitted (step outcome s a) = rs_submitted s @ extra \<and>
                 length extra + may_submit (step outcome s a) \<le> may_submit s"
proof (cases a)
  case RunThread
  then show ?thesis
    using run_thread_submitted [OF assms] by (simp add: step_def)
qed (auto simp: step_def may_submit_def)

lemma exec_submitted:
  "rs_cancelled s \<Longrightarrow>
   \<exists>extra. rs_submitted (exec outcome s schedule) = rs_submitted s @ extra \<and>
           length extra + may_submit (exec outcome s schedule) \<le> may_submit s"
proof (induction schedule arbitrary: s)
  case Nil
  then show ?case by (simp add: exec_def)
next
  case (Cons a schedule)
  obtain e1 where e1: "rs_submitted (step outcome s a) = rs_submitted s @ e1"
    "length e1 + may_submit (step outcome s a) \<le> may_submit s"
    using step_submitted [OF Cons.prems] by blast
  obtain e2 where e2:
    "rs_submitted (exec outcome (step outcome s a) schedule) = rs_submitted (step outcome s a) @ e2"
    "length e2 + may_submit (exec outcome (step outcome s a) schedule) \<le> may_submit (step outcome s a)"
    using Cons.IH [OF step_cancelled [OF Cons.prems]] by blast
  have "exec outcome s (a # schedule) = exec outcome (step outcome s a) schedule"
    by (simp add: exec_def)
  then show ?case
    using e1 e2 by (intro exI [of _ "e1 @ e2"]) simp
qed

lemma run_thread_handled:
  assumes "rs_cancelled s"
  shows "\<exists>extra. rs_handled (run_thread outcome s) = rs_handled s @ extra \<and>
                 length extra + may_handle (run_thread outcome s) \<le> may_handle s"
  using assms
  by (cases "rs_pc s")
     (auto simp: run_thread_def may_handle_def split: list.splits option.splits sum.splits)

lemma step_handled:
  assumes "rs_cancelled s"
  shows "\<exists>extra. rs_handled (step outcome s a) = rs_handled s @ extra \<and>
                 length extra + may_handle (step outcome s a) \<le> may_handle s"
proof (cases a)
  case RunThread
  then show ?thesis
    using run_thread_handled [OF assms] by (simp add: step_def)
qed (auto simp: step_def may_handle_def)

lemma exec_handled:
  "rs_cancelled s \<Longrightarrow>
   \<exists>extra. rs_handled (exec outcome s schedule) = rs_handled s @ extra \<and>
           length extra + may_handle (exec outcome s schedule) \<le> may_handle s"
proof (induction schedule arbitrary: s)
  case Nil
  then show ?case by (simp add: exec_def)
next
  case (Cons a schedule)
  obtain e1 where e1: "rs_handled (step outcome s a) = rs_handled s @ e1"
    "length e1 + may_handle (step outcome s a) \<le> may_handle s"
    using step_handled [OF Cons.prems] by blast
  obtain e2 where e2:
    "rs_handled (exec outcome (step outcome s a) schedule) = rs_handled (step outcome s a) @ e2"
    "length e2 + may_handle (exec outcome (step outcome s a) schedule) \<le> may_handle (step outcome s a)"
    using Cons.IH [OF step_cancelled [OF Cons.prems]] by blast
  have "exec outcome s (a # schedule) = exec outcome (step outcome s a) schedule"
    by (simp add: exec_def)
  then show ?case
    using e1 e2 by (intro exI [of _ "e1 @ e2"]) simp
qed

text \<open>Once cancelled and outside the waits, the run thread never waits again.\<close>

lemma step_no_wait:
  assumes "rs_cancelled s" and "rs_pc s \<noteq> SubmitWait" and "rs_pc s \<noteq> ResultWait"
  shows "rs_pc (step outcome s a) \<noteq> SubmitWait \<and> rs_pc (step outcome s a) \<noteq> ResultWait"
  using assms
  by (cases a; cases "rs_pc s")
     (auto simp: step_def run_thread_def split: list.splits option.splits sum.splits)

lemma exec_no_wait:
  "rs_cancelled s \<Longrightarrow> rs_pc s \<noteq> SubmitWait \<Longrightarrow> rs_pc s \<noteq> ResultWait \<Longrightarrow>
   rs_pc (exec outcome s schedule) \<noteq> SubmitWait \<and> rs_pc (exec outcome s schedule) \<noteq> ResultWait"
proof (induction schedule arbitrary: s)
  case Nil
  then show ?case by (simp add: exec_def)
next
  case (Cons a schedule)
  have "exec outcome s (a # schedule) = exec outcome (step outcome s a) schedule"
    by (simp add: exec_def)
  then show ?case
    using Cons.IH [OF step_cancelled [OF Cons.prems(1)]] step_no_wait [OF Cons.prems, of outcome a]
    by simp
qed

lemma run_thread_leaves_wait:
  assumes "rs_cancelled s" and "rs_pause_set s"
  shows "rs_pc (run_thread outcome s) \<noteq> SubmitWait \<and> rs_pc (run_thread outcome s) \<noteq> ResultWait"
  using assms
  by (cases "rs_pc s")
     (auto simp: run_thread_def split: list.splits option.splits sum.splits)

lemma exec_unblocked:
  "rs_cancelled s \<Longrightarrow> rs_pause_set s \<Longrightarrow> Pause \<notin> set schedule \<Longrightarrow> RunThread \<in> set schedule \<Longrightarrow>
   rs_pc (exec outcome s schedule) \<noteq> SubmitWait \<and> rs_pc (exec outcome s schedule) \<noteq> ResultWait"
proof (induction schedule arbitrary: s)
  case Nil
  then show ?case by simp
next
  case (Cons a schedule)
  have unfold: "exec outcome s (a # schedule) = exec outcome (step outcome s a) schedule"
    by (simp add: exec_def)
  show ?case
  proof (cases "a = RunThread")
    case True
    then have "rs_pc (step outcome s a) \<noteq> SubmitWait \<and> rs_pc (step outcome s a) \<noteq> ResultWait"
      using run_thread_leaves_wait [OF Cons.prems(1,2)] by (simp add: step_def)
    then show ?thesis
      using exec_no_wait [OF step_cancelled [OF Cons.prems(1)]] unfold by simp
  next
    case False
    then have rest: "RunThread \<in> set schedule" "Pause \<notin> set schedule" "a \<noteq> Pause"
      using Cons.prems(3,4) by auto
    have "rs_pause_set (step outcome s a)"
      using Cons.prems(2) False rest(3) by (cases a) (auto simp: step_def)
    from Cons.IH [OF step_cancelled [OF Cons.prems(1)] this rest(2,1)] show ?thesis
      using unfold by simp
  qed
qed

lemma exec_append:
  "exec outcome s (first @ second) = exec outcome (exec outcome s first) second"
  by (simp add: exec_def)

lemma paused_then_cancelled_state:
  "exec sample_outcome (init_run two_tasks) paused_then_cancelled
   = \<lparr>rs_worker = emit Started (new_worker two_tasks), rs_cancelled = True, rs_pause_set = True,
      rs_pc = SubmitWait, rs_todo = two_tasks, rs_submitted = [], rs_running = [],
      rs_completed = [], rs_current = None, rs_handled = [], rs_in_cancel = False\<rparr>"
  by (simp add: paused_then_cancelled_def exec_def step_def run_thread_def init_run_def two_tasks_def)

lemma paused_then_cancelled_submits:
  "rs_submitted (exec sample_outcome (init_run two_tasks) (paused_then_cancelled @ [RunThread, RunThread]))
   = [sample_task (py ''a.png'')]"
proof -
  have "rs_submitted (exec sample_outcome
          \<lparr>rs_worker = emit Started (new_worker two_tasks), rs_cancelled = True,
           rs_pause_set = True, rs_pc = SubmitWait, rs_todo = two_tasks, rs_submitted = [],
           rs_running = [], rs_completed = [], rs_current = None, rs_handled = [],
           rs_in_cancel = False\<rparr> [RunThread, RunThread])
        = [sample_task (py ''a.png'')]"
    by (simp add: exec_def step_def run_thread_def two_tasks_def)
  then show ?thesis
    by (simp only: exec_append paused_then_cancelled_state)
qed

text \<open>
  The claim as it is written, with no further task submitted once \<open>cancel\<close> has been
  called, fails when the run thread is already beyond the cancellation check: here it
  is blocked on the pause event when the user cancels, and it submits the first task
  afterwards.
\<close>

theorem task_submitted_after_cancel:
  "rs_cancelled (exec sample_outcome (init_run two_tasks) paused_then_cancelled) \<and>
   rs_submitted (exec sample_outcome (init_run two_tasks) paused_then_cancelled) = [] \<and>
   rs_submitted (exec sample_outcome (init_run two_tasks)
                   (paused_then_cancelled @ [RunThread, RunThread]))
   = [sample_task (py ''a.png'')]"
proof (intro conjI)
  show "rs_cancelled (exec sample_outcome (init_run two_tasks) paused_then_cancelled)"
    "rs_submitted (exec sample_outcome (init_run two_tasks) paused_then_cancelled) = []"
    by (simp_all only: paused_then_cancelled_state run_state.simps)
  show "rs_submitted (exec sample_outcome (init_run two_tasks)
                   (paused_then_cancelled @ [RunThread, RunThread]))
   = [sample_task (py ''a.png'')]"
    by (rule paused_then_cancelled_submits)
qed

text \<open>
  Claim C6, as amended. Once the cancellation event is set it stays set for the rest
  of the run. From then on the submission loop submits at most the one task whose pass is
  already beyond the cancellation check (none when the run thread is elsewhere), and the
  result loop handles at most the one result whose pass is already beyond its check; each
  loop exits at its next cancellation check. \<open>cancel\<close> sets the cancellation event and
  then the pause event; and with the pause event set and no later \<open>pause\<close>, the run thread
  is out of its wait after its next step and never waits again.
\<close>

theorem cancel_cooperative:
  assumes "rs_cancelled s"
  shows "rs_cancelled (exec outcome s schedule) \<and>
         (\<exists>extra. rs_submitted (exec outcome s schedule) = rs_submitted s @ extra \<and>
                  length extra \<le> may_submit s) \<and>
         (\<exists>extra. rs_handled (exec outcome s schedule) = rs_handled s @ extra \<and>
                  length extra \<le> may_handle s) \<and>
         (rs_pc s = SubmitCheck \<longrightarrow> rs_pc (run_thread outcome s) = ResultNext) \<and>
         (rs_pc s = ResultCheck \<longrightarrow> rs_pc (run_thread outcome s) = Finalize) \<and>
         (rs_pause_set s \<and> Pause \<notin> set schedule \<and> RunThread \<in> set schedule \<longrightarrow>
            rs_pc (exec outcome s schedule) \<noteq> SubmitWait \<and>
            rs_pc (exec outcome s schedule) \<noteq> ResultWait) \<and>
         (\<not> rs_in_cancel s0 \<longrightarrow>
            rs_cancelled (step outcome s0 CancelBegin) \<and>
            rs_in_cancel (step outcome s0 CancelBegin)) \<and>
         (rs_in_cancel s0 \<longrightarrow> rs_pause_set (step outcome s0 CancelEnd))"
proof (intro conjI impI)
  show "rs_cancelled (exec outcome s schedule)"
    by (rule exec_cancelled [OF assms])
  show "\<exists>extra. rs_submitted (exec outcome s schedule) = rs_submitted s @ extra \<and>
                length extra \<le> may_submit s"
    using exec_submitted [OF assms, of outcome schedule] by auto
  show "\<exists>extra. rs_handled (exec outcome s schedule) = rs_handled s @ extra \<and>
                length extra \<le> may_handle s"
    using exec_handled [OF assms, of outcome schedule] by auto
next
  assume "rs_pc s = SubmitCheck"
  then show "rs_pc (run_thread outcome s) = ResultNext"
    using assms by (simp add: run_thread_def split: list.splits)
next
  assume "rs_pc s = ResultCheck"
  then show "rs_pc (run_thread outcome s) = Finalize"
    using assms by (simp add: run_thread_def)
next
  assume a: "rs_pause_set s \<and> Pause \<notin> set schedule \<and> RunThread \<in> set schedule"
  then have "rs_pc (exec outcome s schedule) \<noteq> SubmitWait \<and>
             rs_pc (exec outcome s schedule) \<noteq> ResultWait"
    using exec_unblocked [OF assms, of schedule outcome] by blast
  then show "rs_pc (exec outcome s schedule) \<noteq> SubmitWait"
    "rs_pc (exec outcome s schedule) \<noteq> ResultWait"
    by simp_all
next
  assume "\<not> rs_in_cancel s0"
  then show "rs_cancelled (step outcome s0 CancelBegin)" "rs_in_cancel (step outcome s0 CancelBegin)"
    by (simp_all add: step_def)
next
  assume "rs_in_cancel s0"
  then show "rs_pause_set (step outcome s0 CancelEnd)"
    by (simp add: step_def)
qed

theorem cancel_cooperative_witness:
  "rs_cancelled (exec sample_outcome (init_run two_tasks) paused_then_cancelled) \<and>
   may_submit (exec sample_outcome (init_run two_tasks) paused_then_cancelled) = 1 \<and>
   may_handle (exec sample_outcome (init_run two_tasks) paused_then_cancelled) = 0 \<and>
   rs_pause_set (exec sample_outcome (init_run two_tasks) paused_then_cancelled) \<and>
   rs_in_cancel (step sample_outcome (init_run two_tasks) CancelBegin) \<and>
   rs_pause_set (step sample_outcome (step sample_outcome (init_run two_tasks) CancelBegin) CancelEnd) \<and>
   rs_submitted (exec sample_outcome (init_run two_tasks)
                   (paused_then_cancelled @ [RunThread, RunThread]))
   = [sample_task (py ''a.png'')] \<and>
   rs_handled (exec sample_outcome (exec sample_outcome (init_run two_tasks) paused_then_cancelled)
                 [RunThread, RunThread, RunThread, PoolComplete 0, RunThread, RunThread]) = [] \<and>
   rs_pc (exec sample_outcome (exec sample_outcome (init_run two_tasks) paused_then_cancelled)
            [RunThread]) \<noteq> SubmitWait"
proof -
  let ?s = "exec sample_outcome (init_run two_tasks) paused_then_cancelled"
  have c: "rs_cancelled ?s" and p: "rs_pause_set ?s"
    and ms: "may_submit ?s = 1" and mh: "may_handle ?s = 0" and h0: "rs_handled ?s = []"
    by (simp_all add: paused_then_cancelled_state may_submit_def may_handle_def)
  have begun: "rs_in_cancel (step sample_outcome (init_run two_tasks) CancelBegin)"
    by (simp add: step_def init_run_def)
  note coop = cancel_cooperative [OF c, of sample_outcome _ "step sample_outcome (init_run two_tasks) CancelBegin"]
  have "\<exists>extra. rs_handled (exec sample_outcome ?s
            [RunThread, RunThread, RunThread, PoolComplete 0, RunThread, RunThread])
          = rs_handled ?s @ extra \<and> length extra \<le> may_handle ?s"
    by (rule coop [THEN conjunct2, THEN conjunct2, THEN conjunct1])
  then have handled: "rs_handled (exec sample_outcome ?s
          [RunThread, RunThread, RunThread, PoolComplete 0, RunThread, RunThread]) = []"
    unfolding mh h0 by simp
  have pre: "rs_pause_set ?s \<and> Pause \<notin> set [RunThread] \<and> RunThread \<in> set [RunThread]"
    using p by simp
  have "rs_pc (exec sample_outcome ?s [RunThread]) \<noteq> SubmitWait \<and>
        rs_pc (exec sample_outcome ?s [RunThread]) \<noteq> ResultWait"
    by (rule mp [OF coop [of "[RunThread]", THEN conjunct2, THEN conjunct2, THEN conjunct2,
        THEN conjunct2, THEN conjunct2, THEN conjunct1] pre])
  then have moved: "rs_pc (exec sample_outcome ?s [RunThread]) \<noteq> SubmitWait"
    by (rule conjunct1)
  have released: "rs_pause_set (step sample_outcome
      (step sample_outcome (init_run two_tasks) CancelBegin) CancelEnd)"
    by (rule mp [OF coop [of "[]", THEN conjunct2, THEN conjunct2, THEN conjunct2, THEN conjunct2,
        THEN conjunct2, THEN conjunct2, THEN conjunct2] begun])
  show ?thesis
    using c ms mh p begun released paused_then_cancelled_submits handled moved
    by (intro conjI) assumption+
qed

end
